theory Spec2Isabelle
  imports
    Complex_Main
    "HOL-Library.AList"
    "HOL-Library.Char_ord"
    "HOL-Library.List_Lexorder"
    "HOL-Library.Sublist"
begin

section \<open>Values shared by all modules\<close>

text \<open>
  Python exceptions are values. Only subclasses of \<open>Exception\<close> are listed: they are what
  the \<open>except Exception\<close> handlers of the sources catch.
\<close>

datatype exn =
    ZeroDivisionError
  | ImportError
  | ValueError
  | CalledProcessError
  | FileNotFoundError
  | FileExistsError
  | IsADirectoryError
  | NotADirectoryError
  | BadZipFile
  | SameFileError
  | LibsndfileError
  | EOFError
  | OtherError string

text \<open>
  A Python float: a finite value, the two infinities, or not-a-number. The special values
  follow IEEE 754, which is what the sources test for (\<open>loudness == float('-inf')\<close>,
  \<open>np.isnan(loudness)\<close>).
\<close>

datatype pyfloat = Fin real | PInf | NInf | NaN

text \<open>
  \<open>a - b\<close> on floats. The difference of two finite floats is the exact difference
  rounded to a float: to the nearest double, or to an infinity when it overflows. That
  rounding, \<open>rnd\<close>, is a parameter (the environment's \<open>float_round\<close> below); the cases
  with an infinity or a not-a-number are those of IEEE 754.
\<close>

fun fsub :: "(real \<Rightarrow> pyfloat) \<Rightarrow> pyfloat \<Rightarrow> pyfloat \<Rightarrow> pyfloat" where
  "fsub rnd NaN _ = NaN"
| "fsub rnd _ NaN = NaN"
| "fsub rnd (Fin a) (Fin b) = rnd (a - b)"
| "fsub rnd (Fin a) PInf = NInf"
| "fsub rnd (Fin a) NInf = PInf"
| "fsub rnd PInf PInf = NaN"
| "fsub rnd PInf _ = PInf"
| "fsub rnd NInf NInf = NaN"
| "fsub rnd NInf _ = NInf"

fun flt :: "pyfloat \<Rightarrow> pyfloat \<Rightarrow> bool" where
  "flt NaN _ = False"
| "flt _ NaN = False"
| "flt (Fin a) (Fin b) = (a < b)"
| "flt (Fin a) PInf = True"
| "flt (Fin a) NInf = False"
| "flt PInf _ = False"
| "flt NInf NInf = False"
| "flt NInf _ = True"

definition isnan :: "pyfloat \<Rightarrow> bool" where
  "isnan x = (x = NaN)"

text \<open>\<open>fmax a b\<close> is Python's \<open>max(a, b)\<close>: \<open>b\<close> if \<open>b > a\<close>, else \<open>a\<close>.\<close>

definition fmax :: "pyfloat \<Rightarrow> pyfloat \<Rightarrow> pyfloat" where
  "fmax a b = (if flt a b then b else a)"

subsection \<open>numpy arrays of samples\<close>

text \<open>
  \<open>soundfile.read\<close> returns a one-dimensional array for mono audio and a two-dimensional
  array of shape (frames, channels) otherwise. \<open>Arr2 d c rows\<close> has shape
  \<open>(length rows, c)\<close>; every row of a valid array has \<open>c\<close> samples.
\<close>

datatype dtype = Float32 | Float64

datatype ndarray = Arr1 dtype "pyfloat list" | Arr2 dtype nat "pyfloat list list"

fun dtype_of :: "ndarray \<Rightarrow> dtype" where
  "dtype_of (Arr1 d xs) = d"
| "dtype_of (Arr2 d c rows) = d"

fun shape :: "ndarray \<Rightarrow> nat list" where
  "shape (Arr1 d xs) = [length xs]"
| "shape (Arr2 d c rows) = [length rows, c]"

fun len :: "ndarray \<Rightarrow> nat" where
  "len (Arr1 d xs) = length xs"
| "len (Arr2 d c rows) = length rows"

fun valid_array :: "ndarray \<Rightarrow> bool" where
  "valid_array (Arr1 d xs) = True"
| "valid_array (Arr2 d c rows) = list_all (\<lambda>r. length r = c) rows"

text \<open>\<open>column a k\<close> is \<open>a[:, k]\<close>, used on two-dimensional arrays with \<open>k\<close> in range.\<close>

fun column :: "ndarray \<Rightarrow> nat \<Rightarrow> ndarray" where
  "column (Arr2 d c rows) k = Arr1 d (map (\<lambda>r. r ! k) rows)"
| "column (Arr1 d xs) k = Arr1 d xs"

fun samples :: "ndarray \<Rightarrow> pyfloat list" where
  "samples (Arr1 d xs) = xs"
| "samples (Arr2 d c rows) = concat rows"

fun to2d :: "ndarray \<Rightarrow> ndarray" where
  "to2d (Arr1 d xs) = Arr2 d 1 (map (\<lambda>x. [x]) xs)"
| "to2d (Arr2 d c rows) = Arr2 d c rows"

fun rows_of :: "ndarray \<Rightarrow> pyfloat list list" where
  "rows_of (Arr1 d xs) = map (\<lambda>x. [x]) xs"
| "rows_of (Arr2 d c rows) = rows"

fun ncols :: "ndarray \<Rightarrow> nat" where
  "ncols (Arr1 d xs) = 1"
| "ncols (Arr2 d c rows) = c"

definition promote :: "dtype list \<Rightarrow> dtype" where
  "promote ds = (if Float64 \<in> set ds then Float64 else Float32)"

text \<open>
  \<open>np.column_stack\<close>: one-dimensional arrays become columns, two-dimensional arrays are
  taken as they are; all must have the same number of rows, and there must be at least one.
\<close>

definition column_stack :: "ndarray list \<Rightarrow> exn + ndarray" where
  "column_stack arrs =
     (case arrs of
        [] \<Rightarrow> Inl ValueError
      | a # as \<Rightarrow>
          if list_all (\<lambda>b. len b = len a) as
          then Inr (Arr2 (promote (map dtype_of arrs)) (sum_list (map ncols arrs))
                     (map (\<lambda>i. concat (map (\<lambda>b. rows_of b ! i) arrs)) [0..<len a]))
          else Inl ValueError)"

section \<open>Paths and the file system\<close>

text \<open>
  A path is the list of its components below the root; file contents are byte strings
  (an Isabelle \<open>char\<close> is a byte). The file system is a tree: a directory lists its
  entries by name, in the order \<open>os.scandir\<close> reports them.
\<close>

type_synonym path = "string list"
type_synonym bytes = string

datatype node = File bytes | Dir "(string \<times> node) list"

fun lookup :: "node \<Rightarrow> path \<Rightarrow> node option" where
  "lookup n [] = Some n"
| "lookup (File b) (x # p) = None"
| "lookup (Dir es) (x # p) = (case map_of es x of None \<Rightarrow> None | Some c \<Rightarrow> lookup c p)"

definition path_exists :: "path \<Rightarrow> node \<Rightarrow> bool" where
  "path_exists p fs = (lookup fs p \<noteq> None)"

definition is_file :: "path \<Rightarrow> node \<Rightarrow> bool" where
  "is_file p fs = (case lookup fs p of Some (File b) \<Rightarrow> True | _ \<Rightarrow> False)"

definition is_dir :: "path \<Rightarrow> node \<Rightarrow> bool" where
  "is_dir p fs = (case lookup fs p of Some (Dir es) \<Rightarrow> True | _ \<Rightarrow> False)"

definition file_content :: "node \<Rightarrow> path \<Rightarrow> bytes option" where
  "file_content fs p = (case lookup fs p of Some (File b) \<Rightarrow> Some b | _ \<Rightarrow> None)"

definition read_file :: "path \<Rightarrow> node \<Rightarrow> exn + bytes" where
  "read_file p fs =
     (case lookup fs p of
        Some (File b) \<Rightarrow> Inr b
      | Some (Dir es) \<Rightarrow> Inl IsADirectoryError
      | None \<Rightarrow> Inl FileNotFoundError)"

text \<open>
  One update of the tree at a path: \<open>f\<close> sees what is there (\<open>None\<close> when nothing is)
  and answers with an error, with the new node, or with \<open>None\<close> to remove the entry.
  A missing parent raises \<open>FileNotFoundError\<close>, a file in the place of a parent
  \<open>NotADirectoryError\<close>. A failed update leaves the tree as it was.
\<close>

fun update_at :: "path \<Rightarrow> (node option \<Rightarrow> exn + node option) \<Rightarrow> node \<Rightarrow> exn + node" where
  "update_at [] f n =
     (case f (Some n) of
        Inl e \<Rightarrow> Inl e
      | Inr None \<Rightarrow> Inl (OtherError ''cannot remove the root'')
      | Inr (Some n') \<Rightarrow> Inr n')"
| "update_at (x # p) f (File b) = Inl NotADirectoryError"
| "update_at [x] f (Dir es) =
     (case f (map_of es x) of
        Inl e \<Rightarrow> Inl e
      | Inr None \<Rightarrow> Inr (Dir (AList.delete x es))
      | Inr (Some n') \<Rightarrow> Inr (Dir (AList.update x n' es)))"
| "update_at (x # y # p) f (Dir es) =
     (case map_of es x of
        None \<Rightarrow> Inl FileNotFoundError
      | Some c \<Rightarrow>
          (case update_at (y # p) f c of
             Inl e \<Rightarrow> Inl e
           | Inr c' \<Rightarrow> Inr (Dir (AList.update x c' es))))"

text \<open>\<open>open(p, 'wb').write(b)\<close>: creates or truncates a regular file.\<close>

definition write_file :: "path \<Rightarrow> bytes \<Rightarrow> node \<Rightarrow> exn + node" where
  "write_file p b fs =
     update_at p (\<lambda>old. case old of
                     Some (Dir es) \<Rightarrow> Inl IsADirectoryError
                   | _ \<Rightarrow> Inr (Some (File b))) fs"

text \<open>\<open>os.mkdir(p)\<close>.\<close>

definition mkdir :: "path \<Rightarrow> node \<Rightarrow> exn + node" where
  "mkdir p fs =
     update_at p (\<lambda>old. case old of
                     None \<Rightarrow> Inr (Some (Dir []))
                   | Some n \<Rightarrow> Inl FileExistsError) fs"

text \<open>\<open>Path.unlink()\<close>.\<close>

definition unlink :: "path \<Rightarrow> node \<Rightarrow> exn + node" where
  "unlink p fs =
     update_at p (\<lambda>old. case old of
                     None \<Rightarrow> Inl FileNotFoundError
                   | Some (File b) \<Rightarrow> Inr None
                   | Some (Dir es) \<Rightarrow> Inl IsADirectoryError) fs"

text \<open>\<open>shutil.rmtree(p)\<close>.\<close>

definition rmtree :: "path \<Rightarrow> node \<Rightarrow> exn + node" where
  "rmtree p fs =
     update_at p (\<lambda>old. case old of
                     None \<Rightarrow> Inl FileNotFoundError
                   | Some (File b) \<Rightarrow> Inl NotADirectoryError
                   | Some (Dir es) \<Rightarrow> Inr None) fs"

text \<open>
  \<open>Path.mkdir(parents=True, exist_ok=True)\<close> and \<open>os.makedirs\<close>: every missing
  directory on the way is created, outermost first.
\<close>

fun mkdirs :: "path list \<Rightarrow> node \<Rightarrow> exn + node" where
  "mkdirs [] fs = Inr fs"
| "mkdirs (d # ds) fs =
     (case lookup fs d of
        Some (Dir es) \<Rightarrow> mkdirs ds fs
      | Some (File b) \<Rightarrow> Inl FileExistsError
      | None \<Rightarrow> (case mkdir d fs of Inl e \<Rightarrow> Inl e | Inr fs' \<Rightarrow> mkdirs ds fs'))"

definition mkdir_p :: "path \<Rightarrow> node \<Rightarrow> exn + node" where
  "mkdir_p p fs = mkdirs (tl (prefixes p)) fs"

text \<open>\<open>Path.iterdir()\<close>.\<close>

definition iterdir :: "path \<Rightarrow> node \<Rightarrow> exn + path list" where
  "iterdir d fs =
     (case lookup fs d of
        Some (Dir es) \<Rightarrow> Inr (map (\<lambda>x. d @ [x]) (map fst es))
      | Some (File b) \<Rightarrow> Inl NotADirectoryError
      | None \<Rightarrow> Inl FileNotFoundError)"

text \<open>
  \<open>os.walk(start)\<close>, top-down: for every directory the triple of its path, the names of
  its subdirectories and the names of its other entries. Walking something that is not a
  directory yields nothing.
\<close>

fun is_Dir :: "node \<Rightarrow> bool" where
  "is_Dir (Dir es) = True"
| "is_Dir (File b) = False"

fun walk_node :: "path \<Rightarrow> node \<Rightarrow> (path \<times> string list \<times> string list) list" where
  "walk_node dirpath (File b) = []"
| "walk_node dirpath (Dir es) =
     (dirpath, map fst (filter (\<lambda>e. is_Dir (snd e)) es),
               map fst (filter (\<lambda>e. \<not> is_Dir (snd e)) es))
     # concat (map (\<lambda>e. walk_node (dirpath @ [fst e]) (snd e)) es)"

definition os_walk :: "path \<Rightarrow> node \<Rightarrow> (path \<times> string list \<times> string list) list" where
  "os_walk start fs = (case lookup fs start of None \<Rightarrow> [] | Some n \<Rightarrow> walk_node start n)"

text \<open>A directory of a real file system has no two entries of one name.\<close>

fun wf_node :: "node \<Rightarrow> bool" where
  "wf_node (File b) = True"
| "wf_node (Dir es) = (distinct (map fst es) \<and> list_all (\<lambda>e. wf_node (snd e)) es)"

text \<open>
  A leaf update turns nothing or a file into nothing, a file or an empty directory: what
  \<open>write_file\<close>, \<open>mkdir\<close> and \<open>unlink\<close> do at their path.
\<close>

definition leaf_update :: "(node option \<Rightarrow> exn + node option) \<Rightarrow> bool" where
  "leaf_update f = (\<forall>old new. f old = Inr new \<longrightarrow>
      (old = None \<or> (\<exists>b. old = Some (File b))) \<and>
      (new = None \<or> (\<exists>b. new = Some (File b)) \<or> new = Some (Dir [])))"


subsection \<open>pathlib\<close>

definition name :: "path \<Rightarrow> string" where
  "name p = (if p = [] then [] else last p)"

definition parent :: "path \<Rightarrow> path" where
  "parent p = butlast p"

text \<open>\<open>s.rfind(c)\<close>, \<open>None\<close> for -1.\<close>

fun rfind :: "char \<Rightarrow> string \<Rightarrow> nat option" where
  "rfind c [] = None"
| "rfind c (x # xs) =
     (case rfind c xs of
        Some i \<Rightarrow> Some (Suc i)
      | None \<Rightarrow> if x = c then Some 0 else None)"

text \<open>
  \<open>PurePath.suffix\<close> (CPython up to 3.13): with \<open>i = name.rfind('.')\<close>, the suffix is
  \<open>name[i:]\<close> if \<open>0 < i < len(name) - 1\<close> and the empty string otherwise.
\<close>

definition path_suffix :: "path \<Rightarrow> string" where
  "path_suffix p =
     (case rfind (CHR ''.'') (name p) of
        None \<Rightarrow> []
      | Some i \<Rightarrow> if 0 < i \<and> i + 1 < length (name p) then drop i (name p) else [])"

text \<open>
  \<open>str.lower()\<close> on ASCII letters: a capital letter gets bit 5 set (its code plus 32);
  other bytes are left as they are.
\<close>

definition lower_char :: "char \<Rightarrow> char" where
  "lower_char c =
     (if CHR ''A'' \<le> c \<and> c \<le> CHR ''Z''
      then Char (digit0 c) (digit1 c) (digit2 c) (digit3 c) (digit4 c) True (digit6 c) (digit7 c)
      else c)"

definition lower :: "string \<Rightarrow> string" where
  "lower s = map lower_char s"

definition lstrip :: "char \<Rightarrow> string \<Rightarrow> string" where
  "lstrip c s = dropWhile (\<lambda>x. x = c) s"

text \<open>\<open>p.relative_to(base)\<close> raises \<open>ValueError\<close> unless \<open>base\<close> is a prefix of \<open>p\<close>.\<close>

definition relative_to :: "path \<Rightarrow> path \<Rightarrow> exn + path" where
  "relative_to p base = (if prefix base p then Inr (drop (length base) p) else Inl ValueError)"

text \<open>\<open>str(p)\<close> of an absolute path.\<close>

definition str_path :: "path \<Rightarrow> string" where
  "str_path p = concat (map (\<lambda>c. CHR ''/'' # c) p)"

section \<open>The external collaborators\<close>

text \<open>
  What an external writer (an encoder, the transcoder) leaves at its output path: the bytes
  it wrote, or a failure that may have left bytes behind.
\<close>

datatype write_outcome = Wrote bytes | Failed exn "bytes option"

text \<open>
  An entry of a ZIP archive: its name, split at \<open>/\<close> into components, and for a file entry
  its data. A directory entry is one whose name ends in \<open>/\<close>.
\<close>

datatype zip_entry = ZFile path bytes | ZDir path

fun zname :: "zip_entry \<Rightarrow> path" where
  "zname (ZFile n b) = n"
| "zname (ZDir n) = n"

text \<open>One stream of the prober's JSON answer.\<close>

record stream =
  codec_type :: "string option"
  codec_name :: "string option"
  stream_duration :: "string option"

text \<open>
  Everything the sources call outside the repository is a field of the environment: the
  rounding of float arithmetic, the
  noise-reduction library and numpy's conversions, the codecs of \<open>soundfile\<close>, the
  loudness meter and gain of \<open>pyloudnorm\<close>, the names \<open>tempfile\<close> picks, the external
  transcoder and prober, Python's \<open>float()\<close>, and the ZIP codec. Standard input is not
  part of it: the lines still to be read are a state of their own, threaded through the
  command-line tools below.
\<close>

record env =
  float_round :: "real \<Rightarrow> pyfloat"
  nr_available :: bool
  cast :: "dtype \<Rightarrow> pyfloat \<Rightarrow> pyfloat"
  reduce_noise :: "ndarray \<Rightarrow> nat \<Rightarrow> pyfloat \<Rightarrow> exn + ndarray"
  sf_decode :: "bytes \<Rightarrow> exn + (ndarray \<times> nat)"
  sf_encode :: "path \<Rightarrow> ndarray \<Rightarrow> nat \<Rightarrow> write_outcome"
  integrated_loudness :: "nat \<Rightarrow> ndarray \<Rightarrow> exn + pyfloat"
  pyln_normalize :: "ndarray \<Rightarrow> pyfloat \<Rightarrow> pyfloat \<Rightarrow> exn + ndarray"
  temp_name :: "string \<Rightarrow> node \<Rightarrow> path"
  ffmpeg :: "string list \<Rightarrow> bytes option list \<Rightarrow> write_outcome"
  ffprobe :: "string list \<Rightarrow> bytes option \<Rightarrow> exn + stream list"
  py_float :: "string \<Rightarrow> exn + pyfloat"
  is_zipfile :: "bytes \<Rightarrow> bool"
  zip_decode :: "bytes \<Rightarrow> exn + zip_entry list"
  zip_encode :: "zip_entry list \<Rightarrow> bytes"
  mkdtemp_name :: "string \<Rightarrow> node \<Rightarrow> path"

definition astype :: "env \<Rightarrow> dtype \<Rightarrow> ndarray \<Rightarrow> ndarray" where
  "astype env t a =
     (case a of
        Arr1 d xs \<Rightarrow> Arr1 t (map (cast env t) xs)
      | Arr2 d c rows \<Rightarrow> Arr2 t c (map (map (cast env t)) rows))"

text \<open>The effect of an external writer on the file system, and the exception it raises.\<close>

definition external_write :: "path \<Rightarrow> write_outcome \<Rightarrow> node \<Rightarrow> (exn + unit) \<times> node" where
  "external_write p outcome fs =
     (case outcome of
        Wrote b \<Rightarrow>
          (case write_file p b fs of Inl e \<Rightarrow> (Inl e, fs) | Inr fs' \<Rightarrow> (Inr (), fs'))
      | Failed e None \<Rightarrow> (Inl e, fs)
      | Failed e (Some b) \<Rightarrow>
          (case write_file p b fs of Inl e' \<Rightarrow> (Inl e, fs) | Inr fs' \<Rightarrow> (Inl e, fs')))"

text \<open>\<open>sf.read(path)\<close> and \<open>sf.write(path, data, rate)\<close>.\<close>

definition sf_read :: "env \<Rightarrow> path \<Rightarrow> node \<Rightarrow> exn + (ndarray \<times> nat)" where
  "sf_read env p fs =
     (case file_content fs p of None \<Rightarrow> Inl LibsndfileError | Some b \<Rightarrow> sf_decode env b)"

definition sf_write :: "env \<Rightarrow> path \<Rightarrow> ndarray \<Rightarrow> nat \<Rightarrow> node \<Rightarrow> (exn + unit) \<times> node" where
  "sf_write env p data rate fs = external_write p (sf_encode env p data rate) fs"

text \<open>
  \<open>subprocess.run(cmd, check=True, ...)\<close> of the transcoder: it reads its input files and
  writes its output file, the last argument of the command.
\<close>

definition run_ffmpeg ::
  "env \<Rightarrow> string list \<Rightarrow> path list \<Rightarrow> path \<Rightarrow> node \<Rightarrow> (exn + unit) \<times> node" where
  "run_ffmpeg env cmd inputs output fs =
     external_write output (ffmpeg env cmd (map (file_content fs) inputs)) fs"

text \<open>
  \<open>tempfile.NamedTemporaryFile(suffix=..., delete=False)\<close>: an empty file of a name that
  did not exist.
\<close>

definition named_temporary_file :: "env \<Rightarrow> string \<Rightarrow> node \<Rightarrow> (exn + path) \<times> node" where
  "named_temporary_file env sfx fs =
     (let p = temp_name env sfx fs in
      if path_exists p fs then (Inl FileExistsError, fs)
      else (case write_file p [] fs of Inl e \<Rightarrow> (Inl e, fs) | Inr fs' \<Rightarrow> (Inr p, fs')))"

section \<open>utils.py\<close>

definition get_audio_duration :: "nat \<Rightarrow> nat \<Rightarrow> exn + pyfloat" where
  "get_audio_duration sample_rate num_samples =
     (if sample_rate = 0 then Inl ZeroDivisionError
      else Inr (Fin (real num_samples / real sample_rate)))"

section \<open>audio\_normalizer.py\<close>

record AudioNormalizationStats =
  stats_filename :: string
  stats_original_lufs :: pyfloat
  stats_target_lufs :: pyfloat
  stats_gain_db :: pyfloat
  stats_duration :: pyfloat

subsection \<open>denoise\_audio\<close>

text \<open>The loop \<open>for channel in range(num_channels)\<close>; the first exception ends it.\<close>

fun denoise_channels ::
  "env \<Rightarrow> ndarray \<Rightarrow> nat \<Rightarrow> pyfloat \<Rightarrow> nat list \<Rightarrow> ndarray list \<Rightarrow> exn + ndarray list" where
  "denoise_channels env data_float sample_rate strength [] denoised_channels =
     Inr denoised_channels"
| "denoise_channels env data_float sample_rate strength (channel # rest) denoised_channels =
     (let channel_data = column data_float channel in
      case reduce_noise env channel_data sample_rate strength of
        Inl e \<Rightarrow> Inl e
      | Inr denoised_channel \<Rightarrow>
          denoise_channels env data_float sample_rate strength rest
            (denoised_channels @ [denoised_channel]))"

definition denoise_audio :: "env \<Rightarrow> ndarray \<Rightarrow> nat \<Rightarrow> pyfloat \<Rightarrow> exn + ndarray" where
  "denoise_audio env data sample_rate strength =
     (if \<not> nr_available env then Inl ImportError
      else
        let original_dtype = dtype_of data;
            data_float = (if dtype_of data \<noteq> Float32 then astype env Float32 data else data)
        in
        case (if length (shape data) > 1 \<and> shape data ! 1 > 1
              then
                (let num_channels = shape data ! 1 in
                 case denoise_channels env data_float sample_rate strength
                        [0..<num_channels] [] of
                   Inl e \<Rightarrow> Inl e
                 | Inr denoised_channels \<Rightarrow> column_stack denoised_channels)
              else reduce_noise env data_float sample_rate strength) of
          Inl e \<Rightarrow> Inl e
        | Inr reduced_noise \<Rightarrow>
            Inr (if original_dtype \<noteq> Float32 then astype env original_dtype reduced_noise
                 else reduced_noise))"

subsection \<open>The transcode bridge\<close>

definition convert_to_wav :: "env \<Rightarrow> path \<Rightarrow> path \<Rightarrow> node \<Rightarrow> (exn + unit) \<times> node" where
  "convert_to_wav env input_path output_path fs =
     (let cmd = [''ffmpeg'',
                 ''-i'', str_path input_path,
                 ''-y'',
                 ''-acodec'', ''pcm_s16le'',
                 ''-ar'', ''48000'',
                 ''-ac'', ''2'',
                 ''-loglevel'', ''error'',
                 str_path output_path]
      in run_ffmpeg env cmd [input_path] output_path fs)"

definition codec_map :: "(string \<times> string list) list" where
  "codec_map =
     [(''mp3'', [''-acodec'', ''libmp3lame'', ''-b:a'', ''192k'']),
      (''m4a'', [''-acodec'', ''aac'', ''-b:a'', ''192k'']),
      (''wma'', [''-acodec'', ''wmav2'', ''-b:a'', ''192k'']),
      (''aac'', [''-acodec'', ''aac'', ''-b:a'', ''192k''])]"

text \<open>\<open>codec_map.get(target_format, ['-acodec', 'copy'])\<close>.\<close>

definition codec_args :: "string \<Rightarrow> string list" where
  "codec_args target_format =
     (case map_of codec_map target_format of
        Some args \<Rightarrow> args
      | None \<Rightarrow> [''-acodec'', ''copy''])"

definition convert_from_wav_cmd :: "path \<Rightarrow> path \<Rightarrow> string \<Rightarrow> string list" where
  "convert_from_wav_cmd input_wav output_path target_format =
     [''ffmpeg'', ''-i'', str_path input_wav, ''-y'']
     @ codec_args target_format
     @ [''-loglevel'', ''error'', str_path output_path]"

definition convert_from_wav ::
  "env \<Rightarrow> path \<Rightarrow> path \<Rightarrow> string \<Rightarrow> node \<Rightarrow> (exn + unit) \<times> node" where
  "convert_from_wav env input_wav output_path target_format fs =
     run_ffmpeg env (convert_from_wav_cmd input_wav output_path target_format)
       [input_wav] output_path fs"

subsection \<open>The denoising step of both normalizers\<close>

text \<open>
  \<open>if denoise: try: data = denoise_audio(data, rate, denoise_strength)
  except Exception: (log, continue)\<close>: the value of \<open>data\<close> after the block.
\<close>

definition denoise_if_requested :: "env \<Rightarrow> bool \<Rightarrow> ndarray \<Rightarrow> nat \<Rightarrow> pyfloat \<Rightarrow> ndarray" where
  "denoise_if_requested env denoise data rate denoise_strength =
     (if denoise
      then (case denoise_audio env data rate denoise_strength of
              Inl e \<Rightarrow> data
            | Inr denoised \<Rightarrow> denoised)
      else data)"

subsection \<open>\_normalize\_native\_format\<close>

text \<open>
  The whole body is inside \<open>try ... except Exception: return None\<close>, so every exception
  of a step is the result \<open>None\<close>, with the file system as that step left it.
\<close>

definition normalize_native_format ::
  "env \<Rightarrow> path \<Rightarrow> pyfloat \<Rightarrow> bool \<Rightarrow> pyfloat \<Rightarrow> node
     \<Rightarrow> AudioNormalizationStats option \<times> node" where
  "normalize_native_format env file_path target_lufs denoise denoise_strength fs =
     (case sf_read env file_path fs of
        Inl e \<Rightarrow> (None, fs)
      | Inr (data0, rate) \<Rightarrow>
          (case get_audio_duration rate (len data0) of
             Inl e \<Rightarrow> (None, fs)
           | Inr duration \<Rightarrow>
               if flt duration (Fin (4 / 10)) then (None, fs)
               else
                 let data = denoise_if_requested env denoise data0 rate denoise_strength in
                 (case integrated_loudness env rate data of
                    Inl e \<Rightarrow> (None, fs)
                  | Inr loudness \<Rightarrow>
                      if loudness = NInf \<or> isnan loudness then (None, fs)
                      else
                        let gain_db = fsub (float_round env) target_lufs loudness in
                        (case pyln_normalize env data loudness target_lufs of
                           Inl e \<Rightarrow> (None, fs)
                         | Inr normalized_audio \<Rightarrow>
                             (case sf_write env file_path normalized_audio rate fs of
                                (Inl e, fs') \<Rightarrow> (None, fs')
                              | (Inr u, fs') \<Rightarrow>
                                  (Some \<lparr> stats_filename = name file_path,
                                          stats_original_lufs = loudness,
                                          stats_target_lufs = target_lufs,
                                          stats_gain_db = gain_db,
                                          stats_duration = duration \<rparr>, fs'))))))"

subsection \<open>\_normalize\_compressed\_format\<close>

text \<open>
  The \<open>try\<close> block: its result, the value of \<open>temp_wav\<close> when it ends, and the file
  system. Every exception inside is caught (\<open>except Exception: return None\<close>).
\<close>

definition normalize_compressed_try ::
  "env \<Rightarrow> path \<Rightarrow> pyfloat \<Rightarrow> string \<Rightarrow> bool \<Rightarrow> pyfloat \<Rightarrow> node
     \<Rightarrow> AudioNormalizationStats option \<times> path option \<times> node" where
  "normalize_compressed_try env file_path target_lufs original_format denoise
     denoise_strength fs =
     (case named_temporary_file env ''.wav'' fs of
        (Inl e, fs0) \<Rightarrow> (None, None, fs0)
      | (Inr temp_wav, fs1) \<Rightarrow>
          (case convert_to_wav env file_path temp_wav fs1 of
             (Inl e, fs2) \<Rightarrow> (None, Some temp_wav, fs2)
           | (Inr u, fs2) \<Rightarrow>
               (case sf_read env temp_wav fs2 of
                  Inl e \<Rightarrow> (None, Some temp_wav, fs2)
                | Inr (data0, rate) \<Rightarrow>
                    (case get_audio_duration rate (len data0) of
                       Inl e \<Rightarrow> (None, Some temp_wav, fs2)
                     | Inr duration \<Rightarrow>
                         if flt duration (Fin (4 / 10)) then (None, Some temp_wav, fs2)
                         else
                           let data = denoise_if_requested env denoise data0 rate
                                        denoise_strength
                           in
                           (case integrated_loudness env rate data of
                              Inl e \<Rightarrow> (None, Some temp_wav, fs2)
                            | Inr loudness \<Rightarrow>
                                if loudness = NInf \<or> isnan loudness
                                then (None, Some temp_wav, fs2)
                                else
                                  let gain_db = fsub (float_round env) target_lufs loudness in
                                  (case pyln_normalize env data loudness target_lufs of
                                     Inl e \<Rightarrow> (None, Some temp_wav, fs2)
                                   | Inr normalized_audio \<Rightarrow>
                                       (case sf_write env temp_wav normalized_audio rate fs2 of
                                          (Inl e, fs3) \<Rightarrow> (None, Some temp_wav, fs3)
                                        | (Inr u, fs3) \<Rightarrow>
                                            (case convert_from_wav env temp_wav file_path
                                                    original_format fs3 of
                                               (Inl e, fs4) \<Rightarrow> (None, Some temp_wav, fs4)
                                             | (Inr u, fs4) \<Rightarrow>
                                                 (Some \<lparr> stats_filename = name file_path,
                                                         stats_original_lufs = loudness,
                                                         stats_target_lufs = target_lufs,
                                                         stats_gain_db = gain_db,
                                                         stats_duration = duration \<rparr>,
                                                  Some temp_wav, fs4)))))))))"

text \<open>
  The \<open>finally\<close> block: \<open>if temp_wav and temp_wav.exists(): temp_wav.unlink()\<close>. An
  exception raised here leaves the function.
\<close>

definition normalize_compressed_format ::
  "env \<Rightarrow> path \<Rightarrow> pyfloat \<Rightarrow> string \<Rightarrow> bool \<Rightarrow> pyfloat \<Rightarrow> node
     \<Rightarrow> (exn + AudioNormalizationStats option) \<times> node" where
  "normalize_compressed_format env file_path target_lufs original_format denoise
     denoise_strength fs =
     (case normalize_compressed_try env file_path target_lufs original_format denoise
             denoise_strength fs of
        (result, None, fs') \<Rightarrow> (Inr result, fs')
      | (result, Some temp_wav, fs') \<Rightarrow>
          if path_exists temp_wav fs'
          then (case unlink temp_wav fs' of
                  Inl e \<Rightarrow> (Inl e, fs')
                | Inr fs'' \<Rightarrow> (Inr result, fs''))
          else (Inr result, fs'))"

subsection \<open>normalize\_audio\_file and normalize\_audio\_files\<close>

definition normalize_audio_file ::
  "env \<Rightarrow> path \<Rightarrow> pyfloat \<Rightarrow> bool \<Rightarrow> pyfloat \<Rightarrow> node
     \<Rightarrow> (exn + AudioNormalizationStats option) \<times> node" where
  "normalize_audio_file env file_path target_lufs denoise denoise_strength fs =
     (let file_format = lstrip (CHR ''.'') (lower (path_suffix file_path)) in
      if file_format \<in> set [''wav'', ''flac'', ''ogg'']
      then (case normalize_native_format env file_path target_lufs denoise denoise_strength fs of
              (result, fs') \<Rightarrow> (Inr result, fs'))
      else if file_format \<in> set [''mp3'', ''m4a'', ''wma'', ''aac'']
      then normalize_compressed_format env file_path target_lufs file_format denoise
             denoise_strength fs
      else (Inr None, fs))"

text \<open>The loop of \<open>normalize_audio_files\<close>, with the list \<open>stats\<close> built so far.\<close>

fun normalize_audio_files_loop ::
  "env \<Rightarrow> path list \<Rightarrow> pyfloat \<Rightarrow> bool \<Rightarrow> pyfloat \<Rightarrow> AudioNormalizationStats list \<Rightarrow> node
     \<Rightarrow> (exn + AudioNormalizationStats list) \<times> node" where
  "normalize_audio_files_loop env [] target_lufs denoise denoise_strength stats fs =
     (Inr stats, fs)"
| "normalize_audio_files_loop env (audio_file # rest) target_lufs denoise denoise_strength
     stats fs =
     (case normalize_audio_file env audio_file target_lufs denoise denoise_strength fs of
        (Inl e, fs') \<Rightarrow> (Inl e, fs')
      | (Inr None, fs') \<Rightarrow>
          normalize_audio_files_loop env rest target_lufs denoise denoise_strength stats fs'
      | (Inr (Some result), fs') \<Rightarrow>
          normalize_audio_files_loop env rest target_lufs denoise denoise_strength
            (stats @ [result]) fs')"

definition normalize_audio_files ::
  "env \<Rightarrow> path list \<Rightarrow> pyfloat \<Rightarrow> bool \<Rightarrow> pyfloat \<Rightarrow> node
     \<Rightarrow> (exn + AudioNormalizationStats list) \<times> node" where
  "normalize_audio_files env audio_files target_lufs denoise denoise_strength fs =
     normalize_audio_files_loop env audio_files target_lufs denoise denoise_strength [] fs"

section \<open>pptx\_handler.py\<close>

subsection \<open>zipfile: reading and extracting\<close>

text \<open>
  \<open>ZipFile._extract_member\<close>: the components \<open>''\<close>, \<open>.\<close> and \<open>..\<close> of the member's
  name are dropped, missing directories above the target are created, a directory entry
  becomes a directory and a file entry a file with the entry's data.
\<close>

definition zip_arcname :: "path \<Rightarrow> path" where
  "zip_arcname n = filter (\<lambda>c. c \<notin> set [[], ''.'', ''..'']) n"

definition extract_member :: "path \<Rightarrow> zip_entry \<Rightarrow> node \<Rightarrow> (exn + unit) \<times> node" where
  "extract_member dest member fs =
     (let arcname = zip_arcname (zname member);
          targetpath = dest @ arcname;
          upperdirs = parent targetpath
      in
      case (if upperdirs \<noteq> [] \<and> \<not> path_exists upperdirs fs then mkdir_p upperdirs fs
            else Inr fs) of
        Inl e \<Rightarrow> (Inl e, fs)
      | Inr fs1 \<Rightarrow>
          (case member of
             ZDir n \<Rightarrow>
               if is_dir targetpath fs1 then (Inr (), fs1)
               else (case mkdir targetpath fs1 of
                       Inl e \<Rightarrow> (Inl e, fs1)
                     | Inr fs2 \<Rightarrow> (Inr (), fs2))
           | ZFile n b \<Rightarrow>
               (case write_file targetpath b fs1 of
                  Inl e \<Rightarrow> (Inl e, fs1)
                | Inr fs2 \<Rightarrow> (Inr (), fs2))))"

text \<open>\<open>ZipFile.extractall(dest)\<close>: every member of the archive, in order.\<close>

fun extractall :: "path \<Rightarrow> zip_entry list \<Rightarrow> node \<Rightarrow> (exn + unit) \<times> node" where
  "extractall dest [] fs = (Inr (), fs)"
| "extractall dest (member # members) fs =
     (case extract_member dest member fs of
        (Inl e, fs') \<Rightarrow> (Inl e, fs')
      | (Inr u, fs') \<Rightarrow> extractall dest members fs')"

text \<open>\<open>zipfile.ZipFile(p, 'r')\<close>.\<close>

definition open_zip :: "env \<Rightarrow> path \<Rightarrow> node \<Rightarrow> exn + zip_entry list" where
  "open_zip env p fs = (case read_file p fs of Inl e \<Rightarrow> Inl e | Inr b \<Rightarrow> zip_decode env b)"

subsection \<open>find\_audio\_files and extract\_pptx\<close>

definition audio_extensions :: "string list" where
  "audio_extensions = [''.wav'', ''.mp3'', ''.m4a'', ''.wma'', ''.aac'', ''.flac'', ''.ogg'']"

definition find_audio_files :: "path \<Rightarrow> node \<Rightarrow> exn + path list" where
  "find_audio_files extract_path fs =
     (let media_dir = extract_path @ [''ppt'', ''media''] in
      if path_exists media_dir fs
      then (case iterdir media_dir fs of
              Inl e \<Rightarrow> Inl e
            | Inr entries \<Rightarrow>
                Inr (sort (filter (\<lambda>file_path. is_file file_path fs \<and>
                                     lower (path_suffix file_path) \<in> set audio_extensions)
                             entries)))
      else Inr (sort []))"

definition extract_pptx ::
  "env \<Rightarrow> path \<Rightarrow> path \<Rightarrow> node \<Rightarrow> (exn + path \<times> path list) \<times> node" where
  "extract_pptx env pptx_path temp_dir fs =
     (let extract_path = temp_dir @ [''pptx_contents''] in
      case mkdir_p extract_path fs of
        Inl e \<Rightarrow> (Inl e, fs)
      | Inr fs1 \<Rightarrow>
          (case open_zip env pptx_path fs1 of
             Inl e \<Rightarrow> (Inl e, fs1)
           | Inr zip_ref \<Rightarrow>
               (case extractall extract_path zip_ref fs1 of
                  (Inl e, fs2) \<Rightarrow> (Inl e, fs2)
                | (Inr u, fs2) \<Rightarrow>
                    (case find_audio_files extract_path fs2 of
                       Inl e \<Rightarrow> (Inl e, fs2)
                     | Inr audio_files \<Rightarrow> (Inr (extract_path, audio_files), fs2)))))"

subsection \<open>reconstruct\_pptx\<close>

text \<open>
  The inner loop \<open>for file in files\<close>: the entries written so far, and the exception
  that ended the loop, if any. \<open>zip_ref.write(file_path, arcname)\<close> reads the file and
  appends a file entry of that name.
\<close>

fun zip_write_files ::
  "path \<Rightarrow> path \<Rightarrow> string list \<Rightarrow> node \<Rightarrow> zip_entry list \<Rightarrow> exn option \<times> zip_entry list" where
  "zip_write_files extract_path dirpath [] fs zip_ref = (None, zip_ref)"
| "zip_write_files extract_path dirpath (file # files) fs zip_ref =
     (let file_path = dirpath @ [file] in
      case relative_to file_path extract_path of
        Inl e \<Rightarrow> (Some e, zip_ref)
      | Inr arcname \<Rightarrow>
          (case read_file file_path fs of
             Inl e \<Rightarrow> (Some e, zip_ref)
           | Inr b \<Rightarrow>
               zip_write_files extract_path dirpath files fs (zip_ref @ [ZFile arcname b])))"

text \<open>The outer loop \<open>for root, dirs, files in os.walk(extract_path)\<close>.\<close>

fun zip_write_walk ::
  "path \<Rightarrow> (path \<times> string list \<times> string list) list \<Rightarrow> node \<Rightarrow> zip_entry list
     \<Rightarrow> exn option \<times> zip_entry list" where
  "zip_write_walk extract_path [] fs zip_ref = (None, zip_ref)"
| "zip_write_walk extract_path ((dirpath, dirs, files) # rest) fs zip_ref =
     (case zip_write_files extract_path dirpath files fs zip_ref of
        (Some e, zip_ref') \<Rightarrow> (Some e, zip_ref')
      | (None, zip_ref') \<Rightarrow> zip_write_walk extract_path rest fs zip_ref')"

text \<open>
  \<open>reconstruct_pptx\<close>: the output's directory is created, the output file is opened for
  writing (and so truncated), the tree is walked, and on leaving the \<open>with\<close> block the
  archive is closed: the entries written so far are what the output file holds, also when
  an exception ends the walk.
\<close>

definition reconstruct_pptx :: "env \<Rightarrow> path \<Rightarrow> path \<Rightarrow> node \<Rightarrow> (exn + unit) \<times> node" where
  "reconstruct_pptx env extract_path output_path fs =
     (case mkdir_p (parent output_path) fs of
        Inl e \<Rightarrow> (Inl e, fs)
      | Inr fs1 \<Rightarrow>
          (case write_file output_path [] fs1 of
             Inl e \<Rightarrow> (Inl e, fs1)
           | Inr fs2 \<Rightarrow>
               (case zip_write_walk extract_path (os_walk extract_path fs2) fs2 [] of
                  (raised, zip_ref) \<Rightarrow>
                    (case write_file output_path (zip_encode env zip_ref) fs2 of
                       Inl e \<Rightarrow> (Inl e, fs2)
                     | Inr fs3 \<Rightarrow>
                         (case raised of
                            Some e \<Rightarrow> (Inl e, fs3)
                          | None \<Rightarrow> (Inr (), fs3))))))"

section \<open>video\_handler.py\<close>

record video_info =
  info_duration :: pyfloat
  has_audio :: bool
  has_video :: bool
  video_codec :: "string option"
  audio_codec :: "string option"

text \<open>
  The loop \<open>for stream in data.get('streams', [])\<close> of \<open>get_video_info\<close>.
  \<open>if duration:\<close> holds for a non-empty string; \<open>float(duration)\<close> may raise.
\<close>

fun video_info_loop :: "env \<Rightarrow> stream list \<Rightarrow> video_info \<Rightarrow> exn + video_info" where
  "video_info_loop env [] info = Inr info"
| "video_info_loop env (s # rest) info =
     (if codec_type s = Some ''video''
      then
        (let info1 = info\<lparr> has_video := True, video_codec := codec_name s \<rparr> in
         case stream_duration s of
           None \<Rightarrow> video_info_loop env rest info1
         | Some d \<Rightarrow>
             if d = [] then video_info_loop env rest info1
             else (case py_float env d of
                     Inl e \<Rightarrow> Inl e
                   | Inr x \<Rightarrow>
                       video_info_loop env rest
                         (info1\<lparr> info_duration := fmax (info_duration info1) x \<rparr>)))
      else if codec_type s = Some ''audio''
      then
        (let info1 = info\<lparr> has_audio := True, audio_codec := codec_name s \<rparr> in
         case stream_duration s of
           None \<Rightarrow> video_info_loop env rest info1
         | Some d \<Rightarrow>
             if d = [] then video_info_loop env rest info1
             else (case py_float env d of
                     Inl e \<Rightarrow> Inl e
                   | Inr x \<Rightarrow>
                       video_info_loop env rest
                         (info1\<lparr> info_duration := fmax (info_duration info1) x \<rparr>)))
      else video_info_loop env rest info)"

definition get_video_info :: "env \<Rightarrow> path \<Rightarrow> node \<Rightarrow> exn + video_info" where
  "get_video_info env video_path fs =
     (let command = [''ffprobe'',
                     ''-v'', ''error'',
                     ''-show_entries'', ''stream=codec_type,codec_name,duration'',
                     ''-of'', ''json'',
                     str_path video_path]
      in
      case ffprobe env command (file_content fs video_path) of
        Inl e \<Rightarrow> Inl e
      | Inr streams \<Rightarrow>
          video_info_loop env streams
            \<lparr> info_duration = Fin 0, has_audio = False, has_video = False,
              video_codec = None, audio_codec = None \<rparr>)"

definition has_audio_stream :: "env \<Rightarrow> path \<Rightarrow> node \<Rightarrow> bool" where
  "has_audio_stream env video_path fs =
     (case get_video_info env video_path fs of Inl e \<Rightarrow> False | Inr info \<Rightarrow> has_audio info)"

definition has_video_stream :: "env \<Rightarrow> path \<Rightarrow> node \<Rightarrow> bool" where
  "has_video_stream env video_path fs =
     (case get_video_info env video_path fs of Inl e \<Rightarrow> False | Inr info \<Rightarrow> has_video info)"

definition extract_audio_from_video ::
  "env \<Rightarrow> path \<Rightarrow> path \<Rightarrow> node \<Rightarrow> (exn + unit) \<times> node" where
  "extract_audio_from_video env video_path output_audio_path fs =
     (if \<not> has_audio_stream env video_path fs then (Inl ValueError, fs)
      else
        let command = [''ffmpeg'',
                       ''-i'', str_path video_path,
                       ''-vn'',
                       ''-acodec'', ''pcm_s16le'',
                       ''-ar'', ''48000'',
                       ''-ac'', ''2'',
                       ''-y'',
                       str_path output_audio_path]
        in run_ffmpeg env command [video_path] output_audio_path fs)"

definition replace_audio_in_video ::
  "env \<Rightarrow> path \<Rightarrow> path \<Rightarrow> path \<Rightarrow> node \<Rightarrow> (exn + unit) \<times> node" where
  "replace_audio_in_video env video_path audio_path output_video_path fs =
     (let command = [''ffmpeg'',
                     ''-i'', str_path video_path,
                     ''-i'', str_path audio_path,
                     ''-c:v'', ''copy'',
                     ''-c:a'', ''aac'',
                     ''-b:a'', ''192k'',
                     ''-map'', ''0:v:0'',
                     ''-map'', ''1:a:0'',
                     ''-shortest'',
                     ''-y'',
                     str_path output_video_path]
      in run_ffmpeg env command [video_path, audio_path] output_video_path fs)"

definition validate_video_file :: "env \<Rightarrow> path \<Rightarrow> node \<Rightarrow> bool \<times> string option" where
  "validate_video_file env file_path fs =
     (if \<not> path_exists file_path fs
      then (False, Some (''File not found: '' @ str_path file_path))
      else if \<not> is_file file_path fs
      then (False, Some (''Not a file: '' @ str_path file_path))
      else if lower (path_suffix file_path) \<noteq> ''.mp4''
      then (False, Some (''Unsupported format: '' @ path_suffix file_path
                           @ '' (only .mp4 supported)''))
      else if \<not> has_video_stream env file_path fs
      then (False, Some (''No video stream found in: '' @ name file_path))
      else if \<not> has_audio_stream env file_path fs
      then (False, Some (''No audio stream found in: '' @ name file_path))
      else (True, None))"

definition find_video_files :: "path \<Rightarrow> node \<Rightarrow> exn + path list" where
  "find_video_files directory fs =
     (if \<not> path_exists directory fs \<or> \<not> is_dir directory fs then Inr []
      else (case iterdir directory fs of
              Inl e \<Rightarrow> Inl e
            | Inr entries \<Rightarrow>
                Inr (sort (filter (\<lambda>file_path. is_file file_path fs \<and>
                                     lower (path_suffix file_path) = ''.mp4'')
                             entries))))"

section \<open>utils.py, continued\<close>

text \<open>\<open>TempDirectory.__enter__\<close> (\<open>tempfile.mkdtemp\<close>) and \<open>__exit__\<close>.\<close>

definition temp_directory_enter :: "env \<Rightarrow> node \<Rightarrow> (exn + path) \<times> node" where
  "temp_directory_enter env fs =
     (let p = mkdtemp_name env ''pptx_normalizer_'' fs in
      if path_exists p fs then (Inl FileExistsError, fs)
      else (case mkdir p fs of Inl e \<Rightarrow> (Inl e, fs) | Inr fs' \<Rightarrow> (Inr p, fs')))"

definition temp_directory_exit :: "path \<Rightarrow> node \<Rightarrow> (exn + unit) \<times> node" where
  "temp_directory_exit p fs =
     (if path_exists p fs
      then (case rmtree p fs of Inl e \<Rightarrow> (Inl e, fs) | Inr fs' \<Rightarrow> (Inr (), fs'))
      else (Inr (), fs))"

definition validate_pptx_file :: "env \<Rightarrow> path \<Rightarrow> node \<Rightarrow> bool \<times> string option" where
  "validate_pptx_file env file_path fs =
     (if \<not> path_exists file_path fs
      then (False, Some (''File not found: '' @ str_path file_path))
      else if \<not> is_file file_path fs
      then (False, Some (''Not a file: '' @ str_path file_path))
      else (case file_content fs file_path of
              None \<Rightarrow> (False, Some ''Error validating file'')
            | Some b \<Rightarrow>
                if \<not> is_zipfile env b
                then (False, Some (''Not a valid PPTX file (not a ZIP archive): ''
                                     @ str_path file_path))
                else (True, None)))"

text \<open>
  \<open>input(prompt)\<close>: the next line of standard input without its newline, and
  \<open>EOFError\<close> when standard input is at its end. The prompt goes to standard output,
  which is not modelled.
\<close>

definition py_input :: "string \<Rightarrow> string list \<Rightarrow> (exn + string) \<times> string list" where
  "py_input prompt stdin =
     (case stdin of
        [] \<Rightarrow> (Inl EOFError, [])
      | line # rest \<Rightarrow> (Inr line, rest))"

text \<open>The interactive question: it raises what \<open>input\<close> raises.\<close>

definition confirm_overwrite :: "path \<Rightarrow> string list \<Rightarrow> (exn + bool) \<times> string list" where
  "confirm_overwrite file_path stdin =
     (case py_input (''Output file '' @ [CHR 0x27] @ str_path file_path @ [CHR 0x27]
                       @ '' already exists. Overwrite? [y/N]: '') stdin of
        (Inl e, stdin') \<Rightarrow> (Inl e, stdin')
      | (Inr response, stdin') \<Rightarrow>
          (Inr (lower response = ''y'' \<or> lower response = ''yes''), stdin'))"

text \<open>
  \<open>if output_path.exists() and not force: if not confirm_overwrite(output_path): ...\<close>,
  the check both tools make before they write: \<open>Inr False\<close> when the user declines,
  \<open>Inr True\<close> when the job goes on (nothing to overwrite, \<open>force\<close>, or the user agreed),
  and the exception of the question.
\<close>

definition overwrite_check ::
  "path \<Rightarrow> bool \<Rightarrow> string list \<Rightarrow> node \<Rightarrow> (exn + bool) \<times> string list" where
  "overwrite_check output_path force stdin fs =
     (if path_exists output_path fs \<and> \<not> force
      then confirm_overwrite output_path stdin
      else (Inr True, stdin))"

definition find_pptx_files :: "path \<Rightarrow> node \<Rightarrow> exn + path list" where
  "find_pptx_files directory fs =
     (if \<not> path_exists directory fs then Inr []
      else if \<not> is_dir directory fs then Inr []
      else (case iterdir directory fs of
              Inl e \<Rightarrow> Inl e
            | Inr entries \<Rightarrow>
                Inr (sort (filter (\<lambda>file_path. is_file file_path fs \<and>
                                     lower (path_suffix file_path) = ''.pptx'')
                             entries))))"

text \<open>
  \<open>shutil.copy2(src, dst)\<close>: into the directory \<open>dst\<close> if it is one; refuses to copy a
  file onto itself; the bytes of the copy are the bytes of the source.
\<close>

definition copy2 :: "path \<Rightarrow> path \<Rightarrow> node \<Rightarrow> exn + node" where
  "copy2 src dst fs =
     (let dst' = (if is_dir dst fs then dst @ [name src] else dst) in
      if path_exists src fs \<and> src = dst' then Inl SameFileError
      else (case read_file src fs of
              Inl e \<Rightarrow> Inl e
            | Inr b \<Rightarrow> write_file dst' b fs))"

section \<open>cli.py\<close>

text \<open>
  The body of \<open>with TempDirectory() as temp_dir:\<close> in \<open>process_single_pptx\<close>: the
  value it returns, or the exception that leaves it.
\<close>

definition process_single_pptx_body ::
  "env \<Rightarrow> path \<Rightarrow> path \<Rightarrow> pyfloat \<Rightarrow> bool \<Rightarrow> pyfloat \<Rightarrow> path \<Rightarrow> node \<Rightarrow> (exn + int) \<times> node" where
  "process_single_pptx_body env input_path output_path target_lufs denoise denoise_strength
     temp_dir fs =
     (case extract_pptx env input_path temp_dir fs of
        (Inl e, fs1) \<Rightarrow> (Inl e, fs1)
      | (Inr (extract_path, audio_files), fs1) \<Rightarrow>
          if audio_files = []
          then (case copy2 input_path output_path fs1 of
                  Inl e \<Rightarrow> (Inl e, fs1)
                | Inr fs2 \<Rightarrow> (Inr 0, fs2))
          else
            (case normalize_audio_files env audio_files target_lufs denoise
                    denoise_strength fs1 of
               (Inl e, fs2) \<Rightarrow> (Inl e, fs2)
             | (Inr stats, fs2) \<Rightarrow>
                 (case reconstruct_pptx env extract_path output_path fs2 of
                    (Inl e, fs3) \<Rightarrow> (Inl e, fs3)
                  | (Inr u, fs3) \<Rightarrow> (Inr 0, fs3))))"

text \<open>
  \<open>try: with TempDirectory() as temp_dir: ... except Exception: return 1\<close>: the
  directory is removed on every way out of the body, and any exception, of the body or of
  the removal, makes the result 1.
\<close>

definition with_temp_directory ::
  "env \<Rightarrow> (path \<Rightarrow> node \<Rightarrow> (exn + int) \<times> node) \<Rightarrow> node \<Rightarrow> int \<times> node" where
  "with_temp_directory env body fs =
     (case temp_directory_enter env fs of
        (Inl e, fs0) \<Rightarrow> (1, fs0)
      | (Inr temp_dir, fs0) \<Rightarrow>
          (case body temp_dir fs0 of
             (r, fs1) \<Rightarrow>
               (case temp_directory_exit temp_dir fs1 of
                  (Inl e, fs2) \<Rightarrow> (1, fs2)
                | (Inr u, fs2) \<Rightarrow>
                    (case r of Inl e \<Rightarrow> (1, fs2) | Inr code \<Rightarrow> (code, fs2)))))"

text \<open>
  \<open>process_single_pptx\<close>: the validation and the overwrite question come before the
  \<open>try\<close>, so an exception of the question leaves the function; everything after is
  inside the \<open>try\<close> and ends in an exit status.
\<close>

definition process_single_pptx ::
  "env \<Rightarrow> path \<Rightarrow> path \<Rightarrow> pyfloat \<Rightarrow> bool \<Rightarrow> bool \<Rightarrow> pyfloat \<Rightarrow> string list \<Rightarrow> node
     \<Rightarrow> (exn + int) \<times> string list \<times> node" where
  "process_single_pptx env input_path output_path target_lufs force denoise denoise_strength
     stdin fs =
     (case validate_pptx_file env input_path fs of
        (False, error_msg) \<Rightarrow> (Inr 1, stdin, fs)
      | (True, error_msg) \<Rightarrow>
          (case overwrite_check output_path force stdin fs of
             (Inl e, stdin') \<Rightarrow> (Inl e, stdin', fs)
           | (Inr False, stdin') \<Rightarrow> (Inr 0, stdin', fs)
           | (Inr True, stdin') \<Rightarrow>
               (case with_temp_directory env
                       (process_single_pptx_body env input_path output_path target_lufs denoise
                          denoise_strength) fs of
                  (code, fs') \<Rightarrow> (Inr code, stdin', fs'))))"


text \<open>
  The loop \<open>for i, input_file in enumerate(pptx_files, 1)\<close> of
  \<open>process_batch_directory\<close>, with the two counters. The loop has no \<open>try\<close>: an exception
  that leaves \<open>process_single_pptx\<close> leaves the loop.
\<close>

fun cli_batch_loop ::
  "env \<Rightarrow> path list \<Rightarrow> path \<Rightarrow> pyfloat \<Rightarrow> bool \<Rightarrow> bool \<Rightarrow> pyfloat \<Rightarrow> nat \<Rightarrow> nat
     \<Rightarrow> string list \<Rightarrow> node \<Rightarrow> (exn + nat \<times> nat) \<times> string list \<times> node" where
  "cli_batch_loop env [] output_dir target_lufs force denoise denoise_strength
     success_count error_count stdin fs = (Inr (success_count, error_count), stdin, fs)"
| "cli_batch_loop env (input_file # rest) output_dir target_lufs force denoise denoise_strength
     success_count error_count stdin fs =
     (let output_file = output_dir @ [name input_file] in
      case process_single_pptx env input_file output_file target_lufs force denoise
             denoise_strength stdin fs of
        (Inl e, stdin', fs') \<Rightarrow> (Inl e, stdin', fs')
      | (Inr result, stdin', fs') \<Rightarrow>
          if result = 0
          then cli_batch_loop env rest output_dir target_lufs force denoise denoise_strength
                 (success_count + 1) error_count stdin' fs'
          else cli_batch_loop env rest output_dir target_lufs force denoise denoise_strength
                 success_count (error_count + 1) stdin' fs')"

definition cli_process_batch_directory ::
  "env \<Rightarrow> path \<Rightarrow> path \<Rightarrow> pyfloat \<Rightarrow> bool \<Rightarrow> bool \<Rightarrow> pyfloat \<Rightarrow> string list \<Rightarrow> node
     \<Rightarrow> (exn + int) \<times> string list \<times> node" where
  "cli_process_batch_directory env input_dir output_dir target_lufs force denoise
     denoise_strength stdin fs =
     (if \<not> path_exists input_dir fs then (Inr 1, stdin, fs)
      else if \<not> is_dir input_dir fs then (Inr 1, stdin, fs)
      else
        (case find_pptx_files input_dir fs of
           Inl e \<Rightarrow> (Inl e, stdin, fs)
         | Inr pptx_files \<Rightarrow>
             if pptx_files = [] then (Inr 0, stdin, fs)
             else
               (case mkdir_p output_dir fs of
                  Inl e \<Rightarrow> (Inl e, stdin, fs)
                | Inr fs1 \<Rightarrow>
                    (case cli_batch_loop env pptx_files output_dir target_lufs force denoise
                            denoise_strength 0 0 stdin fs1 of
                       (Inl e, stdin', fs2) \<Rightarrow> (Inl e, stdin', fs2)
                     | (Inr (success_count, error_count), stdin', fs2) \<Rightarrow>
                         (Inr (if error_count = 0 then 0 else 1), stdin', fs2)))))"

text \<open>
  The batch branch of \<open>main\<close>: \<open>try: return process_batch_directory(...)\<close> with
  \<open>except Exception: ... return 1\<close>.
\<close>

definition main_batch_mode ::
  "env \<Rightarrow> path \<Rightarrow> path \<Rightarrow> pyfloat \<Rightarrow> bool \<Rightarrow> bool \<Rightarrow> pyfloat \<Rightarrow> string list \<Rightarrow> node
     \<Rightarrow> int \<times> string list \<times> node" where
  "main_batch_mode env input_dir output_dir target_lufs force denoise denoise_strength stdin fs =
     (case cli_process_batch_directory env input_dir output_dir target_lufs force denoise
             denoise_strength stdin fs of
        (Inl e, stdin', fs') \<Rightarrow> (1, stdin', fs')
      | (Inr code, stdin', fs') \<Rightarrow> (code, stdin', fs'))"

section \<open>video\_cli.py\<close>

definition process_single_video_body ::
  "env \<Rightarrow> path \<Rightarrow> path \<Rightarrow> pyfloat \<Rightarrow> bool \<Rightarrow> pyfloat \<Rightarrow> path \<Rightarrow> node \<Rightarrow> (exn + int) \<times> node" where
  "process_single_video_body env input_path output_path target_lufs denoise denoise_strength
     temp_dir fs =
     (let temp_audio = temp_dir @ [''extracted_audio.wav''] in
      case extract_audio_from_video env input_path temp_audio fs of
        (Inl e, fs1) \<Rightarrow> (Inl e, fs1)
      | (Inr u, fs1) \<Rightarrow>
          (case normalize_audio_file env temp_audio target_lufs denoise denoise_strength fs1 of
             (Inl e, fs2) \<Rightarrow> (Inl e, fs2)
           | (Inr None, fs2) \<Rightarrow> (Inr 1, fs2)
           | (Inr (Some stats), fs2) \<Rightarrow>
               (case replace_audio_in_video env input_path temp_audio output_path fs2 of
                  (Inl e, fs3) \<Rightarrow> (Inl e, fs3)
                | (Inr u, fs3) \<Rightarrow> (Inr 0, fs3))))"

definition process_single_video ::
  "env \<Rightarrow> path \<Rightarrow> path \<Rightarrow> pyfloat \<Rightarrow> bool \<Rightarrow> bool \<Rightarrow> pyfloat \<Rightarrow> string list \<Rightarrow> node
     \<Rightarrow> (exn + int) \<times> string list \<times> node" where
  "process_single_video env input_path output_path target_lufs force denoise denoise_strength
     stdin fs =
     (case validate_video_file env input_path fs of
        (False, error_msg) \<Rightarrow> (Inr 1, stdin, fs)
      | (True, error_msg) \<Rightarrow>
          (case overwrite_check output_path force stdin fs of
             (Inl e, stdin') \<Rightarrow> (Inl e, stdin', fs)
           | (Inr False, stdin') \<Rightarrow> (Inr 0, stdin', fs)
           | (Inr True, stdin') \<Rightarrow>
               (case with_temp_directory env
                       (process_single_video_body env input_path output_path target_lufs denoise
                          denoise_strength) fs of
                  (code, fs') \<Rightarrow> (Inr code, stdin', fs'))))"

fun video_cli_batch_loop ::
  "env \<Rightarrow> path list \<Rightarrow> path \<Rightarrow> pyfloat \<Rightarrow> bool \<Rightarrow> bool \<Rightarrow> pyfloat \<Rightarrow> nat \<Rightarrow> nat
     \<Rightarrow> string list \<Rightarrow> node \<Rightarrow> (exn + nat \<times> nat) \<times> string list \<times> node" where
  "video_cli_batch_loop env [] output_dir target_lufs force denoise denoise_strength
     success_count error_count stdin fs = (Inr (success_count, error_count), stdin, fs)"
| "video_cli_batch_loop env (input_file # rest) output_dir target_lufs force denoise
     denoise_strength success_count error_count stdin fs =
     (let output_file = output_dir @ [name input_file] in
      case process_single_video env input_file output_file target_lufs force denoise
             denoise_strength stdin fs of
        (Inl e, stdin', fs') \<Rightarrow> (Inl e, stdin', fs')
      | (Inr result, stdin', fs') \<Rightarrow>
          if result = 0
          then video_cli_batch_loop env rest output_dir target_lufs force denoise
                 denoise_strength (success_count + 1) error_count stdin' fs'
          else video_cli_batch_loop env rest output_dir target_lufs force denoise
                 denoise_strength success_count (error_count + 1) stdin' fs')"

definition video_cli_process_batch_directory ::
  "env \<Rightarrow> path \<Rightarrow> path \<Rightarrow> pyfloat \<Rightarrow> bool \<Rightarrow> bool \<Rightarrow> pyfloat \<Rightarrow> string list \<Rightarrow> node
     \<Rightarrow> (exn + int) \<times> string list \<times> node" where
  "video_cli_process_batch_directory env input_dir output_dir target_lufs force denoise
     denoise_strength stdin fs =
     (if \<not> path_exists input_dir fs then (Inr 1, stdin, fs)
      else if \<not> is_dir input_dir fs then (Inr 1, stdin, fs)
      else
        (case find_video_files input_dir fs of
           Inl e \<Rightarrow> (Inl e, stdin, fs)
         | Inr video_files \<Rightarrow>
             if video_files = [] then (Inr 0, stdin, fs)
             else
               (case mkdir_p output_dir fs of
                  Inl e \<Rightarrow> (Inl e, stdin, fs)
                | Inr fs1 \<Rightarrow>
                    (case video_cli_batch_loop env video_files output_dir target_lufs force
                            denoise denoise_strength 0 0 stdin fs1 of
                       (Inl e, stdin', fs2) \<Rightarrow> (Inl e, stdin', fs2)
                     | (Inr (success_count, error_count), stdin', fs2) \<Rightarrow>
                         (Inr (if error_count = 0 then 0 else 1), stdin', fs2)))))"

text \<open>The batch branch of \<open>main\<close> in \<open>video_cli.py\<close>, with the same \<open>try\<close>.\<close>

definition video_main_batch_mode ::
  "env \<Rightarrow> path \<Rightarrow> path \<Rightarrow> pyfloat \<Rightarrow> bool \<Rightarrow> bool \<Rightarrow> pyfloat \<Rightarrow> string list \<Rightarrow> node
     \<Rightarrow> int \<times> string list \<times> node" where
  "video_main_batch_mode env input_dir output_dir target_lufs force denoise denoise_strength
     stdin fs =
     (case video_cli_process_batch_directory env input_dir output_dir target_lufs force denoise
             denoise_strength stdin fs of
        (Inl e, stdin', fs') \<Rightarrow> (1, stdin', fs')
      | (Inr code, stdin', fs') \<Rightarrow> (code, stdin', fs'))"

section \<open>Example inputs\<close>

text \<open>
  A small environment: the noise reducer returns its input, the decoder knows a few byte
  strings, the meter reports silence for all-zero samples and -23 LUFS otherwise.
\<close>

definition demo_decode :: "bytes \<Rightarrow> exn + (ndarray \<times> nat)" where
  "demo_decode b =
     (if b = ''short'' then Inr (Arr1 Float64 [Fin 1], 10)
      else if b = ''silent'' then Inr (Arr1 Float64 [Fin 0, Fin 0], 2)
      else if b = ''stereo'' then Inr (Arr2 Float64 2 [[Fin 1, Fin 2], [Fin 3, Fin 4]], 2)
      else if b = ''mono'' then Inr (Arr1 Float64 [Fin 1, Fin 2], 2)
      else Inl LibsndfileError)"

definition demo_loudness :: "nat \<Rightarrow> ndarray \<Rightarrow> exn + pyfloat" where
  "demo_loudness rate data =
     (if list_all (\<lambda>x. x = Fin 0) (samples data) then Inr NInf else Inr (Fin (- 23)))"

definition demo_env :: env where
  "demo_env =
     \<lparr> float_round = Fin,
       nr_available = True,
       cast = (\<lambda>t x. x),
       reduce_noise = (\<lambda>y sr s. Inr y),
       sf_decode = demo_decode,
       sf_encode = (\<lambda>p data rate. Wrote ''normalized''),
       integrated_loudness = demo_loudness,
       pyln_normalize = (\<lambda>data loudness target. Inr data),
       temp_name = (\<lambda>sfx fs. [''tmp'', ''t'' @ sfx]),
       ffmpeg = (\<lambda>cmd inputs. case inputs of
                   Some b # rest \<Rightarrow> Wrote b
                 | _ \<Rightarrow> Failed CalledProcessError None),
       ffprobe = (\<lambda>cmd input. case input of
                    None \<Rightarrow> Inl CalledProcessError
                  | Some b \<Rightarrow>
                      Inr [\<lparr> codec_type = Some ''video'', codec_name = Some ''h264'',
                             stream_duration = None \<rparr>,
                           \<lparr> codec_type = Some ''audio'', codec_name = Some ''aac'',
                             stream_duration = None \<rparr>]),
       py_float = (\<lambda>s. Inl ValueError),
       is_zipfile = (\<lambda>b. True),
       zip_decode = (\<lambda>b. if b = ''deck'' then Inr [ZFile [''ppt'', ''slide1.xml''] ''xml'']
                          else if b = ''talk''
                          then Inr [ZFile [''ppt'', ''media'', ''a.wav''] ''short'']
                          else Inl BadZipFile),
       zip_encode = (\<lambda>entries. ''zip''),
       mkdtemp_name = (\<lambda>prefix fs. [''tmp'', prefix @ ''0'']) \<rparr>"

definition demo_stereo :: ndarray where
  "demo_stereo = Arr2 Float64 2 [[Fin 1, Fin 2], [Fin 3, Fin 4]]"

text \<open>A file system with a temporary directory and a directory of audio files.\<close>

definition demo_fs :: node where
  "demo_fs =
     Dir [(''tmp'', Dir []),
          (''work'', Dir [(''short.wav'', File ''short''),
                          (''silent.wav'', File ''silent''),
                          (''a.wav'', File ''stereo''),
                          (''short.mp3'', File ''short''),
                          (''silent.mp3'', File ''silent''),
                          (''song.mp3'', File ''mono''),
                          (''notes.txt'', File ''text''),
                          (''LOUD.WAV'', File ''stereo'')])]"

definition demo_env_no_nr :: env where
  "demo_env_no_nr = demo_env \<lparr> nr_available := False \<rparr>"


text \<open>
  A batch whose first output of each kind is already there: two presentations without
  audio and two videos.
\<close>

definition demo_prompt_fs :: node where
  "demo_prompt_fs =
     Dir [(''tmp'', Dir []),
          (''in'', Dir [(''a.pptx'', File ''deck''),
                        (''b.pptx'', File ''deck''),
                        (''x.mp4'', File ''stereo''),
                        (''y.mp4'', File ''stereo'')]),
          (''out'', Dir [(''a.pptx'', File ''old''),
                         (''x.mp4'', File ''old'')])]"

text \<open>
  A presentation whose only audio file is too short to measure, and a video whose audio is.
\<close>

definition demo_skip_fs :: node where
  "demo_skip_fs =
     Dir [(''tmp'', Dir []),
          (''in'', Dir [(''t.pptx'', File ''talk''),
                        (''x.mp4'', File ''short'')]),
          (''out'', Dir [])]"

section \<open>Denoising preserves the shape\<close>

lemma shape_astype: "shape (astype env t a) = shape a"
  by (cases a) (simp_all add: astype_def)

lemma shape_one: "shape z = [n] \<Longrightarrow> \<exists>d xs. z = Arr1 d xs \<and> length xs = n"
  by (cases z) simp_all

lemma denoise_channels_ok:
  assumes nr: "\<And>y. \<exists>z. reduce_noise env y sr s = Inr z \<and> shape z = shape y"
  shows "\<exists>zs. denoise_channels env df sr s ks acc = Inr (acc @ zs) \<and> length zs = length ks \<and>
           (\<forall>i<length ks. reduce_noise env (column df (ks ! i)) sr s = Inr (zs ! i))"
proof (induction ks arbitrary: acc)
  case Nil
  then show ?case by simp
next
  case (Cons k ks)
  from nr obtain z where z: "reduce_noise env (column df k) sr s = Inr z" by blast
  from Cons.IH [of "acc @ [z]"] obtain zs where
    zs: "denoise_channels env df sr s ks (acc @ [z]) = Inr ((acc @ [z]) @ zs)"
        "length zs = length ks"
        "\<forall>i<length ks. reduce_noise env (column df (ks ! i)) sr s = Inr (zs ! i)"
    by blast
  have "denoise_channels env df sr s (k # ks) acc = Inr (acc @ (z # zs))"
    using z zs(1) by simp
  moreover have "length (z # zs) = length (k # ks)" using zs(2) by simp
  moreover have "\<forall>i<length (k # ks).
      reduce_noise env (column df ((k # ks) ! i)) sr s = Inr ((z # zs) ! i)"
    using z zs(3) by (auto simp: nth_Cons split: nat.splits)
  ultimately show ?case by blast
qed

lemma column_stack_columns:
  assumes "zs \<noteq> []" and "\<forall>z\<in>set zs. \<exists>d xs. z = Arr1 d xs \<and> length xs = n"
  shows "\<exists>dt. column_stack zs =
           Inr (Arr2 dt (length zs) (map (\<lambda>i. map (\<lambda>z. samples z ! i) zs) [0..<n]))"
proof -
  obtain a as where zs: "zs = a # as" using assms(1) by (cases zs) auto
  have lens: "\<forall>z\<in>set zs. len z = n" using assms(2) by auto
  have nc: "map ncols zs = replicate (length zs) 1"
    using assms(2) by (intro replicate_eqI) auto
  have rows: "\<And>i. i < n \<Longrightarrow> concat (map (\<lambda>b. rows_of b ! i) zs) = map (\<lambda>z. samples z ! i) zs"
    using assms(2) by (induction zs) auto
  have "list_all (\<lambda>b. len b = len a) as" using lens zs by (auto simp: list_all_iff)
  moreover have "len a = n" using lens zs by simp
  moreover have "sum_list (map ncols zs) = length zs" using nc by (simp add: sum_list_replicate)
  ultimately show ?thesis using rows unfolding column_stack_def zs [symmetric]
    by (simp add: zs)
qed

text \<open>
  Claim C8. When the noise-reduction library is there and its call returns an array of the
  shape it was given, \<open>denoise_audio\<close> returns, for every input array and every strength,
  an array of the input's shape: the same number of samples and the same number of
  channels. For an input of more than one channel, channel \<open>k\<close> of the result is what the
  library returned for channel \<open>k\<close> of the input (converted back to the input's dtype):
  the channels are processed one by one and put back in their order.
\<close>

theorem denoise_audio_preserves_shape:
  assumes avail: "nr_available env"
      and nr: "\<And>y. \<exists>z. reduce_noise env y sample_rate strength = Inr z \<and> shape z = shape y"
  shows "\<exists>out. denoise_audio env data sample_rate strength = Inr out \<and>
           shape out = shape data \<and> len out = len data \<and>
           (\<forall>k. length (shape data) > 1 \<and> shape data ! 1 > 1 \<and> k < shape data ! 1 \<longrightarrow>
              (\<exists>z. reduce_noise env
                      (column (if dtype_of data \<noteq> Float32 then astype env Float32 data else data) k)
                      sample_rate strength = Inr z \<and>
                   samples (column out k) =
                     samples (if dtype_of data \<noteq> Float32 then astype env (dtype_of data) z else z)))"
proof (cases "length (shape data) > 1 \<and> shape data ! 1 > 1")
  case False
  define df where "df = (if dtype_of data \<noteq> Float32 then astype env Float32 data else data)"
  from nr obtain z where z: "reduce_noise env df sample_rate strength = Inr z" "shape z = shape df"
    by blast
  have sdf: "shape df = shape data" by (simp add: df_def shape_astype)
  define out where "out = (if dtype_of data \<noteq> Float32 then astype env (dtype_of data) z else z)"
  have "denoise_audio env data sample_rate strength = Inr out"
    using False avail z(1)
    by (cases "dtype_of data = Float32") (auto simp: denoise_audio_def df_def out_def Let_def)
  moreover have so: "shape out = shape data" using z(2) sdf by (simp add: out_def shape_astype)
  moreover have "len out = len data" using so by (cases out; cases data) simp_all
  ultimately show ?thesis using False by auto
next
  case True
  then obtain d c rows where data: "data = Arr2 d c rows" and c: "c > 1"
    by (cases data) auto
  define df where "df = (if dtype_of data \<noteq> Float32 then astype env Float32 data else data)"
  define n where "n = length rows"
  have sdf: "shape df = [n, c]" by (simp add: df_def shape_astype data n_def)
  obtain d' rows' where df: "df = Arr2 d' c rows'" "length rows' = n"
    using sdf by (cases df) auto
  from denoise_channels_ok [OF nr, of df "[0..<c]" "[]"] obtain zs where
    zs: "denoise_channels env df sample_rate strength [0..<c] [] = Inr zs"
        "length zs = c"
        "\<forall>i<c. reduce_noise env (column df i) sample_rate strength = Inr (zs ! i)"
    by auto
  have each: "\<forall>z\<in>set zs. \<exists>e xs. z = Arr1 e xs \<and> length xs = n"
  proof
    fix z assume "z \<in> set zs"
    then obtain i where i: "i < c" "z = zs ! i" using zs(2) by (auto simp: in_set_conv_nth)
    from nr obtain z' where z': "reduce_noise env (column df i) sample_rate strength = Inr z'"
      "shape z' = shape (column df i)" by blast
    have "z' = z" using zs(3) i z'(1) by simp
    moreover have "shape (column df i) = [n]" using df by simp
    ultimately show "\<exists>e xs. z = Arr1 e xs \<and> length xs = n" using z'(2) shape_one by metis
  qed
  have ne: "zs \<noteq> []" using zs(2) c by auto
  from column_stack_columns [OF ne each] obtain dt where
    st: "column_stack zs = Inr (Arr2 dt c (map (\<lambda>i. map (\<lambda>z. samples z ! i) zs) [0..<n]))"
    using zs(2) by auto
  define stacked where "stacked = Arr2 dt c (map (\<lambda>i. map (\<lambda>z. samples z ! i) zs) [0..<n])"
  define out where "out = (if d \<noteq> Float32 then astype env d stacked else stacked)"
  have res: "denoise_audio env data sample_rate strength = Inr out"
    using avail c zs(1) st
    by (simp add: denoise_audio_def data df_def [unfolded data] out_def stacked_def Let_def)
  have so: "shape out = shape data"
    by (simp add: out_def stacked_def shape_astype data n_def)
  have lo: "len out = len data"
    by (simp add: out_def stacked_def astype_def data n_def)
  have cols: "\<exists>z. reduce_noise env (column df k) sample_rate strength = Inr z \<and>
                samples (column out k) = samples (if d \<noteq> Float32 then astype env d z else z)"
    if k: "k < c" for k
  proof -
    have r: "reduce_noise env (column df k) sample_rate strength = Inr (zs ! k)"
      using zs(3) k by simp
    have "zs ! k \<in> set zs" using k zs(2) by simp
    then obtain e xs where zk: "zs ! k = Arr1 e xs" "length xs = n" using each by blast
    have "samples (column stacked k) = map (\<lambda>i. samples (zs ! k) ! i) [0..<n]"
      using k zs(2) by (simp add: stacked_def)
    also have "\<dots> = xs" using zk map_nth [of xs] by simp
    finally have sc: "samples (column stacked k) = xs" .
    have "samples (column (astype env d stacked) k) = map (cast env d) xs"
    proof -
      have "samples (column (astype env d stacked) k) =
              map (\<lambda>i. cast env d (samples (zs ! k) ! i)) [0..<n]"
        using k zs(2) by (simp add: stacked_def astype_def)
      also have "\<dots> = map (cast env d) (map (\<lambda>i. xs ! i) [0..<n])" using zk by simp
      also have "\<dots> = map (cast env d) xs" using zk(2) map_nth [of xs] by simp
      finally show ?thesis .
    qed
    then have "samples (column out k) =
                 samples (if d \<noteq> Float32 then astype env d (zs ! k) else zs ! k)"
      using sc zk by (simp add: out_def astype_def)
    with r show ?thesis by blast
  qed
  show ?thesis using res so lo cols by (auto simp: data df_def)
qed

theorem denoise_audio_preserves_shape_witness:
  "nr_available demo_env \<and>
   (\<exists>out. denoise_audio demo_env demo_stereo 2 (Fin (1 / 2)) = Inr out \<and>
          shape out = [2, 2] \<and> len out = 2 \<and>
          samples (column out 0) = [Fin 1, Fin 3] \<and> samples (column out 1) = [Fin 2, Fin 4])"
proof -
  have avail: "nr_available demo_env" by (simp add: demo_env_def)
  have nr: "\<And>y. \<exists>z. reduce_noise demo_env y 2 (Fin (1 / 2)) = Inr z \<and> shape z = shape y"
    by (simp add: demo_env_def)
  from denoise_audio_preserves_shape [OF avail nr, of demo_stereo]
  obtain out where out: "denoise_audio demo_env demo_stereo 2 (Fin (1 / 2)) = Inr out"
    "shape out = shape demo_stereo" "len out = len demo_stereo"
    by blast
  have val: "denoise_audio demo_env demo_stereo 2 (Fin (1 / 2)) = Inr demo_stereo"
    by (simp add: denoise_audio_def demo_env_def demo_stereo_def astype_def column_stack_def
          promote_def Let_def upt_rec)
  have "out = demo_stereo" using out(1) val by simp
  then show ?thesis using avail out by (simp add: demo_stereo_def)
qed

section \<open>The file system: what an update leaves alone\<close>

lemma lookup_append:
  "lookup n (p @ q) = (case lookup n p of None \<Rightarrow> None | Some m \<Rightarrow> lookup m q)"
proof (induction p arbitrary: n)
  case Nil
  show ?case by simp
next
  case (Cons x p)
  show ?case
  proof (cases n)
    case (File b)
    then show ?thesis by simp
  next
    case (Dir es)
    then show ?thesis using Cons.IH by (simp split: option.splits)
  qed
qed

text \<open>An update does not touch what lies beside its path.\<close>

lemma update_at_other:
  "update_at p f fs = Inr fs' \<Longrightarrow> \<not> prefix p q \<Longrightarrow> \<not> prefix q p \<Longrightarrow> lookup fs' q = lookup fs q"
proof (induction p f fs arbitrary: q fs' rule: update_at.induct)
  case (1 f n)
  then show ?case by simp
next
  case (2 x p f b)
  then show ?case by simp
next
  case (3 x f es)
  from "3.prems" obtain y q' where q: "q = y # q'" "y \<noteq> x"
    by (cases q) auto
  from "3.prems"(1) show ?case
    by (auto simp: q update_conv' delete_conv' split: sum.splits option.splits)
next
  case (4 x y p f es)
  from "4.prems" obtain z q' where q: "q = z # q'"
    by (cases q) auto
  from "4.prems"(1) obtain c c' where c: "map_of es x = Some c" "update_at (y # p) f c = Inr c'"
    "fs' = Dir (AList.update x c' es)"
    by (auto split: option.splits sum.splits)
  show ?case
  proof (cases "z = x")
    case True
    have "lookup c' q' = lookup c q'"
      using "4.IH" [OF c(1) c(2)] "4.prems"(2,3) q True by simp
    then show ?thesis using c q True by (simp add: update_conv')
  next
    case False
    then show ?thesis using c q by (simp add: update_conv')
  qed
qed

text \<open>What lies above the path of a successful update is a directory, before and after.\<close>

lemma update_at_above:
  "update_at p f fs = Inr fs' \<Longrightarrow> strict_prefix q p \<Longrightarrow>
     (\<exists>es. lookup fs q = Some (Dir es)) \<and> (\<exists>es. lookup fs' q = Some (Dir es))"
proof (induction p f fs arbitrary: q fs' rule: update_at.induct)
  case (1 f n)
  then show ?case by simp
next
  case (2 x p f b)
  then show ?case by simp
next
  case (3 x f es)
  from "3.prems"(2) have "q = []" by (cases q) (auto simp: strict_prefix_def)
  with "3.prems"(1) show ?case by (auto split: sum.splits option.splits)
next
  case (4 x y p f es)
  from "4.prems"(1) obtain c c' where c: "map_of es x = Some c" "update_at (y # p) f c = Inr c'"
    "fs' = Dir (AList.update x c' es)"
    by (auto split: option.splits sum.splits)
  show ?case
  proof (cases q)
    case Nil
    then show ?thesis using c by simp
  next
    case (Cons z q')
    with "4.prems"(2) have z: "z = x" "strict_prefix q' (y # p)"
      by (auto simp: strict_prefix_def)
    from "4.IH" [OF c(1) c(2) z(2)] show ?thesis using c Cons z by (simp add: update_conv')
  qed
qed

text \<open>The node at the path itself.\<close>

lemma update_at_self:
  "update_at p f fs = Inr fs' \<Longrightarrow> p \<noteq> [] \<Longrightarrow> f (lookup fs p) = Inr (lookup fs' p)"
proof (induction p f fs arbitrary: fs' rule: update_at.induct)
  case (1 f n)
  then show ?case by simp
next
  case (2 x p f b)
  then show ?case by simp
next
  case (3 x f es)
  then show ?case by (auto simp: update_conv' delete_conv' split: sum.splits option.splits)
next
  case (4 x y p f es)
  from "4.prems"(1) obtain c c' where c: "map_of es x = Some c" "update_at (y # p) f c = Inr c'"
    "fs' = Dir (AList.update x c' es)"
    by (auto split: option.splits sum.splits)
  from "4.IH" [OF c(1) c(2)] show ?case using c by (simp add: update_conv')
qed

lemma lookup_below_file:
  "lookup fs p = Some (File b) \<Longrightarrow> r \<noteq> [] \<Longrightarrow> lookup fs (p @ r) = None"
  by (cases r) (simp_all add: lookup_append)

lemma lookup_below_none:
  "lookup fs p = None \<Longrightarrow> lookup fs (p @ r) = None"
  by (simp add: lookup_append)

text \<open>A leaf update leaves the content of every other file as it was.\<close>

lemma file_content_update_other:
  assumes leaf: "leaf_update f" and upd: "update_at p f fs = Inr fs'" and ne: "q \<noteq> p"
  shows "file_content fs' q = file_content fs q"
proof (cases "p = []")
  case True
  from upd True obtain new where f: "f (Some fs) = Inr (Some new)" "fs' = new"
    by (auto split: sum.splits option.splits)
  from leaf f(1) obtain b where old: "fs = File b" by (auto simp: leaf_update_def)
  from leaf f(1) have new: "(\<exists>b. new = File b) \<or> new = Dir []" by (auto simp: leaf_update_def)
  from ne True obtain x r where q: "q = x # r" by (cases q) auto
  show ?thesis using old new f(2) q by (auto simp: file_content_def)
next
  case False
  consider (below) "strict_prefix p q" | (above) "strict_prefix q p"
    | (beside) "\<not> prefix p q" "\<not> prefix q p"
    using ne by (auto simp: strict_prefix_def)
  then show ?thesis
  proof cases
    case below
    then obtain r where r: "q = p @ r" "r \<noteq> []" by (auto simp: strict_prefix_def prefix_def)
    from update_at_self [OF upd False] have f: "f (lookup fs p) = Inr (lookup fs' p)" .
    with leaf have old: "lookup fs p = None \<or> (\<exists>b. lookup fs p = Some (File b))"
      and new: "lookup fs' p = None \<or> (\<exists>b. lookup fs' p = Some (File b)) \<or>
                lookup fs' p = Some (Dir [])"
      by (auto simp: leaf_update_def)
    have "lookup fs q = None" using old r by (auto simp: lookup_below_file lookup_below_none)
    moreover have "lookup fs' q = None"
    proof -
      from r(2) obtain x r' where "r = x # r'" by (cases r) auto
      then show ?thesis using new r(1) by (auto simp: lookup_append)
    qed
    ultimately show ?thesis by (simp add: file_content_def)
  next
    case above
    from update_at_above [OF upd above] show ?thesis by (auto simp: file_content_def)
  next
    case beside
    from update_at_other [OF upd beside] show ?thesis by (simp add: file_content_def)
  qed
qed

lemma leaf_write_file:
  "leaf_update (\<lambda>old. case old of Some (Dir es) \<Rightarrow> Inl IsADirectoryError | _ \<Rightarrow> Inr (Some (File b)))"
  by (auto simp: leaf_update_def split: option.splits node.splits)

lemma leaf_unlink:
  "leaf_update (\<lambda>old. case old of None \<Rightarrow> Inl FileNotFoundError
                   | Some (File b) \<Rightarrow> Inr None
                   | Some (Dir es) \<Rightarrow> Inl IsADirectoryError)"
  by (auto simp: leaf_update_def split: option.splits node.splits)

lemma leaf_mkdir:
  "leaf_update (\<lambda>old. case old of None \<Rightarrow> Inr (Some (Dir [])) | Some n \<Rightarrow> Inl FileExistsError)"
  by (auto simp: leaf_update_def split: option.splits node.splits)

lemma write_file_other:
  "write_file p b fs = Inr fs' \<Longrightarrow> q \<noteq> p \<Longrightarrow> file_content fs' q = file_content fs q"
  unfolding write_file_def by (rule file_content_update_other [OF leaf_write_file])

lemma unlink_other:
  "unlink p fs = Inr fs' \<Longrightarrow> q \<noteq> p \<Longrightarrow> file_content fs' q = file_content fs q"
  unfolding unlink_def by (rule file_content_update_other [OF leaf_unlink])

lemma mkdir_other:
  "mkdir p fs = Inr fs' \<Longrightarrow> q \<noteq> p \<Longrightarrow> file_content fs' q = file_content fs q"
  unfolding mkdir_def by (rule file_content_update_other [OF leaf_mkdir])

lemma write_file_self:
  assumes "write_file p b fs = Inr fs'"
  shows "file_content fs' p = Some b"
proof (cases "p = []")
  case True
  with assms show ?thesis
    by (auto simp: write_file_def file_content_def split: node.splits)
next
  case False
  from update_at_self [OF assms [unfolded write_file_def] False]
  have "lookup fs' p = Some (File b)" by (auto split: option.splits node.splits)
  then show ?thesis by (simp add: file_content_def)
qed

lemma unlink_self:
  assumes "unlink p fs = Inr fs'"
  shows "file_content fs' p = None"
proof (cases "p = []")
  case True
  with assms show ?thesis
    by (auto simp: unlink_def file_content_def split: node.splits)
next
  case False
  from update_at_self [OF assms [unfolded unlink_def] False]
  have "lookup fs' p = None" by (auto split: option.splits node.splits)
  then show ?thesis by (simp add: file_content_def)
qed

text \<open>An update succeeds when its path leads to an entry and \<open>f\<close> accepts it.\<close>

lemma update_at_succeeds:
  "lookup fs p = Some n \<Longrightarrow> p \<noteq> [] \<Longrightarrow> f (Some n) = Inr r \<Longrightarrow> \<exists>fs'. update_at p f fs = Inr fs'"
proof (induction p f fs rule: update_at.induct)
  case (1 f n)
  then show ?case by simp
next
  case (2 x p f b)
  then show ?case by simp
next
  case (3 x f es)
  then show ?case by (auto split: option.splits)
next
  case (4 x y p f es)
  from "4.prems"(1) obtain c where c: "map_of es x = Some c" "lookup c (y # p) = Some n"
    by (auto split: option.splits)
  from "4.IH" [OF c(1) c(2) _ "4.prems"(3)] obtain c' where "update_at (y # p) f c = Inr c'"
    by auto
  then show ?case using c by simp
qed

lemma unlink_succeeds:
  assumes "file_content fs p = Some b" and "p \<noteq> []"
  shows "\<exists>fs'. unlink p fs = Inr fs'"
proof -
  from assms have l: "lookup fs p = Some (File b)"
    by (auto simp: file_content_def split: option.splits node.splits)
  show ?thesis unfolding unlink_def
    by (rule update_at_succeeds [OF l assms(2)]) simp
qed

lemma external_write_other:
  "external_write p oc fs = (r, fs') \<Longrightarrow> q \<noteq> p \<Longrightarrow> file_content fs' q = file_content fs q"
  by (auto simp: external_write_def write_file_other
           split: write_outcome.splits sum.splits option.splits)

lemma external_write_ok:
  "external_write p oc fs = (Inr u, fs') \<Longrightarrow> \<exists>b. file_content fs' p = Some b"
  by (auto simp: external_write_def write_file_self
           split: write_outcome.splits sum.splits option.splits)

section \<open>The normalizers after their checks\<close>

lemma duration_short:
  "rate > 0 \<Longrightarrow> real n / real rate < 4 / 10 \<Longrightarrow>
     \<exists>d. get_audio_duration rate n = Inr d \<and> flt d (Fin (4 / 10))"
  by (simp add: get_audio_duration_def)

lemma duration_long:
  "rate > 0 \<Longrightarrow> 4 / 10 \<le> real n / real rate \<Longrightarrow>
     get_audio_duration rate n = Inr (Fin (real n / real rate)) \<and>
     \<not> flt (Fin (real n / real rate)) (Fin (4 / 10))"
  by (simp add: get_audio_duration_def)

text \<open>The native normalizer once the file is read and long enough.\<close>

lemma native_after_checks:
  assumes "sf_read env file_path fs = Inr (data0, rate)"
      and "rate > 0" and "4 / 10 \<le> real (len data0) / real rate"
      and "integrated_loudness env rate
             (denoise_if_requested env denoise data0 rate denoise_strength) = Inr loudness"
  shows "normalize_native_format env file_path target_lufs denoise denoise_strength fs =
           (if loudness = NInf \<or> loudness = NaN then (None, fs)
            else
              case pyln_normalize env (denoise_if_requested env denoise data0 rate denoise_strength)
                     loudness target_lufs of
                Inl e \<Rightarrow> (None, fs)
              | Inr normalized_audio \<Rightarrow>
                  (case sf_write env file_path normalized_audio rate fs of
                     (Inl e, fs') \<Rightarrow> (None, fs')
                   | (Inr u, fs') \<Rightarrow>
                       (Some \<lparr> stats_filename = name file_path,
                               stats_original_lufs = loudness,
                               stats_target_lufs = target_lufs,
                               stats_gain_db = fsub (float_round env) target_lufs loudness,
                               stats_duration = Fin (real (len data0) / real rate) \<rparr>, fs')))"
  using assms duration_long [OF assms(2,3)]
  by (simp add: normalize_native_format_def isnan_def Let_def)

lemma native_short:
  assumes "sf_read env file_path fs = Inr (data0, rate)"
      and "rate > 0" and "real (len data0) / real rate < 4 / 10"
  shows "normalize_native_format env file_path target_lufs denoise denoise_strength fs = (None, fs)"
  using assms duration_short [OF assms(2,3)]
  by (auto simp: normalize_native_format_def)

text \<open>The \<open>try\<close> block of the bridged normalizer once the file is transcoded, read and long enough.\<close>

lemma compressed_try_after_checks:
  assumes "named_temporary_file env ''.wav'' fs = (Inr temp_wav, fs1)"
      and "convert_to_wav env file_path temp_wav fs1 = (Inr (), fs2)"
      and "sf_read env temp_wav fs2 = Inr (data0, rate)"
      and "rate > 0" and "4 / 10 \<le> real (len data0) / real rate"
      and "integrated_loudness env rate
             (denoise_if_requested env denoise data0 rate denoise_strength) = Inr loudness"
  shows "normalize_compressed_try env file_path target_lufs original_format denoise
           denoise_strength fs =
           (if loudness = NInf \<or> loudness = NaN then (None, Some temp_wav, fs2)
            else
              case pyln_normalize env (denoise_if_requested env denoise data0 rate denoise_strength)
                     loudness target_lufs of
                Inl e \<Rightarrow> (None, Some temp_wav, fs2)
              | Inr normalized_audio \<Rightarrow>
                  (case sf_write env temp_wav normalized_audio rate fs2 of
                     (Inl e, fs3) \<Rightarrow> (None, Some temp_wav, fs3)
                   | (Inr u, fs3) \<Rightarrow>
                       (case convert_from_wav env temp_wav file_path original_format fs3 of
                          (Inl e, fs4) \<Rightarrow> (None, Some temp_wav, fs4)
                        | (Inr u, fs4) \<Rightarrow>
                            (Some \<lparr> stats_filename = name file_path,
                                    stats_original_lufs = loudness,
                                    stats_target_lufs = target_lufs,
                                    stats_gain_db = fsub (float_round env) target_lufs loudness,
                                    stats_duration = Fin (real (len data0) / real rate) \<rparr>,
                             Some temp_wav, fs4))))"
  using assms duration_long [OF assms(4,5)]
  by (simp add: normalize_compressed_try_def isnan_def Let_def)

lemma compressed_try_short:
  assumes "named_temporary_file env ''.wav'' fs = (Inr temp_wav, fs1)"
      and "convert_to_wav env file_path temp_wav fs1 = (Inr (), fs2)"
      and "sf_read env temp_wav fs2 = Inr (data0, rate)"
      and "rate > 0" and "real (len data0) / real rate < 4 / 10"
  shows "normalize_compressed_try env file_path target_lufs original_format denoise
           denoise_strength fs = (None, Some temp_wav, fs2)"
  using assms duration_short [OF assms(4,5)]
  by (auto simp: normalize_compressed_try_def)

lemma named_temporary_file_facts:
  assumes "named_temporary_file env sfx fs = (Inr t, fs1)"
  shows "t \<noteq> []" and "file_content fs t = None" and "file_content fs1 t = Some []"
    and "\<And>q. q \<noteq> t \<Longrightarrow> file_content fs1 q = file_content fs q"
proof -
  from assms have t: "t = temp_name env sfx fs" and ne: "\<not> path_exists t fs"
    and w: "write_file t [] fs = Inr fs1"
    by (auto simp: named_temporary_file_def Let_def split: if_splits sum.splits)
  from ne show "t \<noteq> []" by (auto simp: path_exists_def)
  from ne show "file_content fs t = None" by (simp add: path_exists_def file_content_def)
  from w show "file_content fs1 t = Some []" by (rule write_file_self)
  fix q assume "q \<noteq> t"
  with w show "file_content fs1 q = file_content fs q" by (rule write_file_other)
qed

lemma sf_read_content:
  "sf_read env p fs = Inr r \<Longrightarrow> \<exists>b. file_content fs p = Some b"
  by (auto simp: sf_read_def split: option.splits)

text \<open>The \<open>finally\<close> block removes the temporary file and nothing else.\<close>

lemma compressed_finally:
  assumes body: "normalize_compressed_try env file_path target_lufs original_format denoise
                  denoise_strength fs = (result, Some temp_wav, fs')"
      and tmp: "file_content fs' temp_wav = Some b" "temp_wav \<noteq> []"
  shows "\<exists>fs''. normalize_compressed_format env file_path target_lufs original_format denoise
                  denoise_strength fs = (Inr result, fs'') \<and>
               file_content fs'' temp_wav = None \<and>
               (\<forall>q. q \<noteq> temp_wav \<longrightarrow> file_content fs'' q = file_content fs' q)"
proof -
  from unlink_succeeds [OF tmp] obtain fs'' where u: "unlink temp_wav fs' = Inr fs''" by blast
  have ex: "path_exists temp_wav fs'"
    using tmp(1) by (auto simp: path_exists_def file_content_def split: option.splits)
  have "normalize_compressed_format env file_path target_lufs original_format denoise
          denoise_strength fs = (Inr result, fs'')"
    using body u ex by (simp add: normalize_compressed_format_def)
  moreover have "file_content fs'' temp_wav = None" using u by (rule unlink_self)
  moreover have "\<forall>q. q \<noteq> temp_wav \<longrightarrow> file_content fs'' q = file_content fs' q"
    using u unlink_other by blast
  ultimately show ?thesis by blast
qed

text \<open>A skip on the bridged path leaves the audio file as it was.\<close>

lemma compressed_skip:
  assumes tmp: "named_temporary_file env ''.wav'' fs = (Inr temp_wav, fs1)"
      and conv: "convert_to_wav env file_path temp_wav fs1 = (Inr (), fs2)"
      and rd: "sf_read env temp_wav fs2 = Inr (data0, rate)"
      and body: "normalize_compressed_try env file_path target_lufs original_format denoise
                  denoise_strength fs = (None, Some temp_wav, fs2)"
  shows "\<exists>fs'. normalize_compressed_format env file_path target_lufs original_format denoise
                  denoise_strength fs = (Inr None, fs') \<and>
               file_content fs' file_path = file_content fs file_path"
proof -
  note t = named_temporary_file_facts [OF tmp]
  from sf_read_content [OF rd] obtain b where b: "file_content fs2 temp_wav = Some b" by blast
  from compressed_finally [OF body b t(1)] obtain fs' where
    r: "normalize_compressed_format env file_path target_lufs original_format denoise
          denoise_strength fs = (Inr None, fs')"
    and gone: "file_content fs' temp_wav = None"
    and rest: "\<forall>q. q \<noteq> temp_wav \<longrightarrow> file_content fs' q = file_content fs2 q"
    by blast
  have "file_content fs' file_path = file_content fs file_path"
  proof (cases "file_path = temp_wav")
    case True
    then show ?thesis using gone t(2) by simp
  next
    case False
    have "file_content fs2 file_path = file_content fs1 file_path"
      using conv False by (auto simp: convert_to_wav_def run_ffmpeg_def Let_def
                                intro: external_write_other)
    then show ?thesis using rest False t(4) by simp
  qed
  with r show ?thesis by blast
qed

lemma compressed_result_of_try:
  assumes "normalize_compressed_format env file_path target_lufs original_format denoise
             denoise_strength fs = (Inr r, fs')"
  shows "fst (normalize_compressed_try env file_path target_lufs original_format denoise
                denoise_strength fs) = r"
  using assms
  by (auto simp: normalize_compressed_format_def split: prod.splits option.splits if_splits
        sum.splits)

lemma denoise_fallback:
  "denoise_audio env data0 rate denoise_strength = Inl e \<Longrightarrow>
     denoise_if_requested env denoise data0 rate denoise_strength = data0"
  by (simp add: denoise_if_requested_def)

section \<open>Gain, skips and the denoising fallback\<close>

text \<open>
  The difference of a target and a loudness that passed the check (it is finite or plus
  infinity), case by case.
\<close>

lemma fsub_cases:
  assumes "loudness \<noteq> NInf" and "loudness \<noteq> NaN" and "g = fsub rnd target_lufs loudness"
  shows "(\<forall>t l. target_lufs = Fin t \<and> loudness = Fin l \<longrightarrow> g = rnd (t - l)) \<and>
         (\<forall>t. target_lufs = Fin t \<and> loudness = PInf \<longrightarrow> g = NInf) \<and>
         (target_lufs = PInf \<and> loudness \<noteq> PInf \<longrightarrow> g = PInf) \<and>
         (target_lufs = PInf \<and> loudness = PInf \<longrightarrow> g = NaN) \<and>
         (target_lufs = NInf \<longrightarrow> g = NInf) \<and>
         (target_lufs = NaN \<longrightarrow> g = NaN)"
  using assms by (cases target_lufs; cases loudness) auto

text \<open>
  Claim C1. On both paths, once the audio is decoded with a duration of at least 0.4
  seconds and the meter returns a loudness \<open>L\<close> that is neither minus infinity nor
  not-a-number, every statistics record the normalizer returns holds \<open>L\<close>, the target and
  the gain \<open>target_lufs - L\<close>, nothing clamped, for any target. For a finite target \<open>t\<close> and
  a finite loudness \<open>l\<close> the gain is the number \<open>t - l\<close> as float arithmetic delivers it,
  \<open>float_round env (t - l)\<close>: the difference itself when it is a double, the nearest double
  or an infinity otherwise. A loudness of plus infinity gives minus infinity, an infinite
  target gives that infinity (not-a-number against a loudness of plus infinity), and a
  not-a-number target gives not-a-number. A record is returned whenever the remaining steps
  (the gain, the write, and on the bridged path the re-encoding) succeed.
\<close>

theorem gain_is_target_minus_loudness:
  "(sf_read env file_path fs = Inr (data0, rate) \<and> rate > 0 \<and>
      4 / 10 \<le> real (len data0) / real rate \<and>
      integrated_loudness env rate
        (denoise_if_requested env denoise data0 rate denoise_strength) = Inr loudness \<and>
      loudness \<noteq> NInf \<and> loudness \<noteq> NaN
      \<longrightarrow> (\<forall>st fs'. normalize_native_format env file_path target_lufs denoise denoise_strength fs
                       = (Some st, fs')
                     \<longrightarrow> stats_original_lufs st = loudness \<and> stats_target_lufs st = target_lufs \<and>
                         (\<forall>t l. target_lufs = Fin t \<and> loudness = Fin l
                                \<longrightarrow> stats_gain_db st = float_round env (t - l)) \<and>
                         (\<forall>t. target_lufs = Fin t \<and> loudness = PInf
                              \<longrightarrow> stats_gain_db st = NInf) \<and>
                         (target_lufs = PInf \<and> loudness \<noteq> PInf \<longrightarrow> stats_gain_db st = PInf) \<and>
                         (target_lufs = PInf \<and> loudness = PInf \<longrightarrow> stats_gain_db st = NaN) \<and>
                         (target_lufs = NInf \<longrightarrow> stats_gain_db st = NInf) \<and>
                         (target_lufs = NaN \<longrightarrow> stats_gain_db st = NaN))
          \<and> (\<forall>normalized fs'.
                pyln_normalize env (denoise_if_requested env denoise data0 rate denoise_strength)
                  loudness target_lufs = Inr normalized \<and>
                sf_write env file_path normalized rate fs = (Inr (), fs')
                \<longrightarrow> (\<exists>st. normalize_native_format env file_path target_lufs denoise
                             denoise_strength fs = (Some st, fs'))))
   \<and> (named_temporary_file env ''.wav'' fs = (Inr temp_wav, fs1) \<and>
      convert_to_wav env file_path temp_wav fs1 = (Inr (), fs2) \<and>
      sf_read env temp_wav fs2 = Inr (data0, rate) \<and> rate > 0 \<and>
      4 / 10 \<le> real (len data0) / real rate \<and>
      integrated_loudness env rate
        (denoise_if_requested env denoise data0 rate denoise_strength) = Inr loudness \<and>
      loudness \<noteq> NInf \<and> loudness \<noteq> NaN
      \<longrightarrow> (\<forall>st fs'. normalize_compressed_format env file_path target_lufs original_format denoise
                       denoise_strength fs = (Inr (Some st), fs')
                     \<longrightarrow> stats_original_lufs st = loudness \<and> stats_target_lufs st = target_lufs \<and>
                         (\<forall>t l. target_lufs = Fin t \<and> loudness = Fin l
                                \<longrightarrow> stats_gain_db st = float_round env (t - l)) \<and>
                         (\<forall>t. target_lufs = Fin t \<and> loudness = PInf
                              \<longrightarrow> stats_gain_db st = NInf) \<and>
                         (target_lufs = PInf \<and> loudness \<noteq> PInf \<longrightarrow> stats_gain_db st = PInf) \<and>
                         (target_lufs = PInf \<and> loudness = PInf \<longrightarrow> stats_gain_db st = NaN) \<and>
                         (target_lufs = NInf \<longrightarrow> stats_gain_db st = NInf) \<and>
                         (target_lufs = NaN \<longrightarrow> stats_gain_db st = NaN))
          \<and> (\<forall>normalized fs3 fs4.
                pyln_normalize env (denoise_if_requested env denoise data0 rate denoise_strength)
                  loudness target_lufs = Inr normalized \<and>
                sf_write env temp_wav normalized rate fs2 = (Inr (), fs3) \<and>
                convert_from_wav env temp_wav file_path original_format fs3 = (Inr (), fs4)
                \<longrightarrow> (\<exists>st fs'. normalize_compressed_format env file_path target_lufs
                                original_format denoise denoise_strength fs
                                = (Inr (Some st), fs'))))"
proof -
  have native_gain: "stats_original_lufs st = loudness \<and> stats_target_lufs st = target_lufs \<and>
                         (\<forall>t l. target_lufs = Fin t \<and> loudness = Fin l
                                \<longrightarrow> stats_gain_db st = float_round env (t - l)) \<and>
                         (\<forall>t. target_lufs = Fin t \<and> loudness = PInf
                              \<longrightarrow> stats_gain_db st = NInf) \<and>
                         (target_lufs = PInf \<and> loudness \<noteq> PInf \<longrightarrow> stats_gain_db st = PInf) \<and>
                         (target_lufs = PInf \<and> loudness = PInf \<longrightarrow> stats_gain_db st = NaN) \<and>
                         (target_lufs = NInf \<longrightarrow> stats_gain_db st = NInf) \<and>
                         (target_lufs = NaN \<longrightarrow> stats_gain_db st = NaN)"
    if a: "sf_read env file_path fs = Inr (data0, rate) \<and> rate > 0 \<and>
      4 / 10 \<le> real (len data0) / real rate \<and>
      integrated_loudness env rate
        (denoise_if_requested env denoise data0 rate denoise_strength) = Inr loudness \<and>
      loudness \<noteq> NInf \<and> loudness \<noteq> NaN"
    and r: "normalize_native_format env file_path target_lufs denoise denoise_strength fs
              = (Some st, fs')" for st fs'
  proof -
    from a r have st: "stats_gain_db st = fsub (float_round env) target_lufs loudness \<and>
        stats_original_lufs st = loudness \<and> stats_target_lufs st = target_lufs"
      using native_after_checks [of env file_path fs data0 rate denoise denoise_strength loudness
              target_lufs]
      by (auto split: sum.splits prod.splits)
    with a fsub_cases [of loudness "stats_gain_db st" "float_round env" target_lufs]
    show ?thesis by simp
  qed
  have native_returns: "\<exists>st. normalize_native_format env file_path target_lufs denoise
                             denoise_strength fs = (Some st, fs')"
    if a: "sf_read env file_path fs = Inr (data0, rate) \<and> rate > 0 \<and>
      4 / 10 \<le> real (len data0) / real rate \<and>
      integrated_loudness env rate
        (denoise_if_requested env denoise data0 rate denoise_strength) = Inr loudness \<and>
      loudness \<noteq> NInf \<and> loudness \<noteq> NaN"
    and b: "pyln_normalize env (denoise_if_requested env denoise data0 rate denoise_strength)
                  loudness target_lufs = Inr normalized \<and>
            sf_write env file_path normalized rate fs = (Inr (), fs')" for normalized fs'
    using a b native_after_checks [of env file_path fs data0 rate denoise denoise_strength loudness
            target_lufs]
    by auto
  have compressed_gain: "stats_original_lufs st = loudness \<and> stats_target_lufs st = target_lufs \<and>
                         (\<forall>t l. target_lufs = Fin t \<and> loudness = Fin l
                                \<longrightarrow> stats_gain_db st = float_round env (t - l)) \<and>
                         (\<forall>t. target_lufs = Fin t \<and> loudness = PInf
                              \<longrightarrow> stats_gain_db st = NInf) \<and>
                         (target_lufs = PInf \<and> loudness \<noteq> PInf \<longrightarrow> stats_gain_db st = PInf) \<and>
                         (target_lufs = PInf \<and> loudness = PInf \<longrightarrow> stats_gain_db st = NaN) \<and>
                         (target_lufs = NInf \<longrightarrow> stats_gain_db st = NInf) \<and>
                         (target_lufs = NaN \<longrightarrow> stats_gain_db st = NaN)"
    if a: "named_temporary_file env ''.wav'' fs = (Inr temp_wav, fs1) \<and>
      convert_to_wav env file_path temp_wav fs1 = (Inr (), fs2) \<and>
      sf_read env temp_wav fs2 = Inr (data0, rate) \<and> rate > 0 \<and>
      4 / 10 \<le> real (len data0) / real rate \<and>
      integrated_loudness env rate
        (denoise_if_requested env denoise data0 rate denoise_strength) = Inr loudness \<and>
      loudness \<noteq> NInf \<and> loudness \<noteq> NaN"
    and r: "normalize_compressed_format env file_path target_lufs original_format denoise
                       denoise_strength fs = (Inr (Some st), fs')" for st fs'
  proof -
    from compressed_result_of_try [OF r]
    have "fst (normalize_compressed_try env file_path target_lufs original_format denoise
                  denoise_strength fs) = Some st" .
    with a have st: "stats_gain_db st = fsub (float_round env) target_lufs loudness \<and>
        stats_original_lufs st = loudness \<and> stats_target_lufs st = target_lufs"
      using compressed_try_after_checks [of env fs temp_wav fs1 file_path fs2 data0 rate denoise
              denoise_strength loudness target_lufs original_format]
      by (auto split: sum.splits prod.splits)
    with a fsub_cases [of loudness "stats_gain_db st" "float_round env" target_lufs]
    show ?thesis by simp
  qed
  have compressed_returns: "\<exists>st fs'. normalize_compressed_format env file_path target_lufs
                                original_format denoise denoise_strength fs
                                = (Inr (Some st), fs')"
    if a: "named_temporary_file env ''.wav'' fs = (Inr temp_wav, fs1) \<and>
      convert_to_wav env file_path temp_wav fs1 = (Inr (), fs2) \<and>
      sf_read env temp_wav fs2 = Inr (data0, rate) \<and> rate > 0 \<and>
      4 / 10 \<le> real (len data0) / real rate \<and>
      integrated_loudness env rate
        (denoise_if_requested env denoise data0 rate denoise_strength) = Inr loudness \<and>
      loudness \<noteq> NInf \<and> loudness \<noteq> NaN"
    and b: "pyln_normalize env (denoise_if_requested env denoise data0 rate denoise_strength)
                  loudness target_lufs = Inr normalized \<and>
                sf_write env temp_wav normalized rate fs2 = (Inr (), fs3) \<and>
                convert_from_wav env temp_wav file_path original_format fs3 = (Inr (), fs4)"
    for normalized fs3 fs4
  proof -
    define st where "st = \<lparr> stats_filename = name file_path,
                             stats_original_lufs = loudness,
                             stats_target_lufs = target_lufs,
                             stats_gain_db = fsub (float_round env) target_lufs loudness,
                             stats_duration = Fin (real (len data0) / real rate) \<rparr>"
    have body: "normalize_compressed_try env file_path target_lufs original_format denoise
             denoise_strength fs = (Some st, Some temp_wav, fs4)"
      using a b compressed_try_after_checks [of env fs temp_wav fs1 file_path fs2 data0 rate
              denoise denoise_strength loudness target_lufs original_format]
      by (simp add: st_def)
    from a have t: "temp_wav \<noteq> []" using named_temporary_file_facts(1) by blast
    from b obtain c where c3: "file_content fs3 temp_wav = Some c"
      using external_write_ok by (fastforce simp: sf_write_def)
    have "\<exists>c. file_content fs4 temp_wav = Some c"
    proof (cases "file_path = temp_wav")
      case True
      with b show ?thesis
        using external_write_ok by (fastforce simp: convert_from_wav_def run_ffmpeg_def)
    next
      case False
      with b have "file_content fs4 temp_wav = file_content fs3 temp_wav"
        by (auto simp: convert_from_wav_def run_ffmpeg_def intro: external_write_other)
      with c3 show ?thesis by simp
    qed
    then obtain c where c4: "file_content fs4 temp_wav = Some c" by blast
    from compressed_finally [OF body c4 t] show ?thesis by blast
  qed
  show ?thesis
    apply (rule conjI)
     apply (rule impI)
     apply (rule conjI)
      apply (intro allI impI)
      apply (erule (1) native_gain)
     apply (intro allI impI)
     apply (erule (1) native_returns)
    apply (rule impI)
    apply (rule conjI)
     apply (intro allI impI)
     apply (erule (1) compressed_gain)
    apply (intro allI impI)
    apply (erule (1) compressed_returns)
    done
qed

text \<open>
  Claim C3. Audio decoded with a duration below 0.4 seconds, and audio whose measured
  loudness is minus infinity or not-a-number, makes the normalizer return \<open>None\<close>. On the
  native path the file system is then exactly as before; on the bridged path the audio file
  has the content it had (the temporary file came and went).
\<close>

theorem skip_leaves_file_untouched:
  "(sf_read env file_path fs = Inr (data0, rate) \<and> rate > 0 \<and>
      real (len data0) / real rate < 4 / 10
      \<longrightarrow> normalize_native_format env file_path target_lufs denoise denoise_strength fs
            = (None, fs))
   \<and> (sf_read env file_path fs = Inr (data0, rate) \<and> rate > 0 \<and>
      4 / 10 \<le> real (len data0) / real rate \<and>
      integrated_loudness env rate
        (denoise_if_requested env denoise data0 rate denoise_strength) = Inr loudness \<and>
      (loudness = NInf \<or> loudness = NaN)
      \<longrightarrow> normalize_native_format env file_path target_lufs denoise denoise_strength fs
            = (None, fs))
   \<and> (named_temporary_file env ''.wav'' fs = (Inr temp_wav, fs1) \<and>
      convert_to_wav env file_path temp_wav fs1 = (Inr (), fs2) \<and>
      sf_read env temp_wav fs2 = Inr (data0, rate) \<and> rate > 0 \<and>
      real (len data0) / real rate < 4 / 10
      \<longrightarrow> (\<exists>fs'. normalize_compressed_format env file_path target_lufs original_format denoise
                    denoise_strength fs = (Inr None, fs') \<and>
                 file_content fs' file_path = file_content fs file_path))
   \<and> (named_temporary_file env ''.wav'' fs = (Inr temp_wav, fs1) \<and>
      convert_to_wav env file_path temp_wav fs1 = (Inr (), fs2) \<and>
      sf_read env temp_wav fs2 = Inr (data0, rate) \<and> rate > 0 \<and>
      4 / 10 \<le> real (len data0) / real rate \<and>
      integrated_loudness env rate
        (denoise_if_requested env denoise data0 rate denoise_strength) = Inr loudness \<and>
      (loudness = NInf \<or> loudness = NaN)
      \<longrightarrow> (\<exists>fs'. normalize_compressed_format env file_path target_lufs original_format denoise
                    denoise_strength fs = (Inr None, fs') \<and>
                 file_content fs' file_path = file_content fs file_path))"
proof (intro conjI impI)
  assume "sf_read env file_path fs = Inr (data0, rate) \<and> rate > 0 \<and>
      real (len data0) / real rate < 4 / 10"
  then show "normalize_native_format env file_path target_lufs denoise denoise_strength fs
            = (None, fs)"
    by (simp add: native_short)
next
  assume a: "sf_read env file_path fs = Inr (data0, rate) \<and> rate > 0 \<and>
      4 / 10 \<le> real (len data0) / real rate \<and>
      integrated_loudness env rate
        (denoise_if_requested env denoise data0 rate denoise_strength) = Inr loudness \<and>
      (loudness = NInf \<or> loudness = NaN)"
  then show "normalize_native_format env file_path target_lufs denoise denoise_strength fs
            = (None, fs)"
    using native_after_checks [of env file_path fs data0 rate denoise denoise_strength loudness
            target_lufs]
    by auto
next
  assume a: "named_temporary_file env ''.wav'' fs = (Inr temp_wav, fs1) \<and>
      convert_to_wav env file_path temp_wav fs1 = (Inr (), fs2) \<and>
      sf_read env temp_wav fs2 = Inr (data0, rate) \<and> rate > 0 \<and>
      real (len data0) / real rate < 4 / 10"
  then have "normalize_compressed_try env file_path target_lufs original_format denoise
           denoise_strength fs = (None, Some temp_wav, fs2)"
    by (intro compressed_try_short) auto
  with a show "\<exists>fs'. normalize_compressed_format env file_path target_lufs original_format denoise
                    denoise_strength fs = (Inr None, fs') \<and>
                 file_content fs' file_path = file_content fs file_path"
    by (intro compressed_skip) auto
next
  assume a: "named_temporary_file env ''.wav'' fs = (Inr temp_wav, fs1) \<and>
      convert_to_wav env file_path temp_wav fs1 = (Inr (), fs2) \<and>
      sf_read env temp_wav fs2 = Inr (data0, rate) \<and> rate > 0 \<and>
      4 / 10 \<le> real (len data0) / real rate \<and>
      integrated_loudness env rate
        (denoise_if_requested env denoise data0 rate denoise_strength) = Inr loudness \<and>
      (loudness = NInf \<or> loudness = NaN)"
  then have "normalize_compressed_try env file_path target_lufs original_format denoise
           denoise_strength fs = (None, Some temp_wav, fs2)"
    using compressed_try_after_checks [of env fs temp_wav fs1 file_path fs2 data0 rate denoise
            denoise_strength loudness target_lufs original_format]
    by auto
  with a show "\<exists>fs'. normalize_compressed_format env file_path target_lufs original_format denoise
                    denoise_strength fs = (Inr None, fs') \<and>
                 file_content fs' file_path = file_content fs file_path"
    by (intro compressed_skip) auto
qed

text \<open>
  Claim C5. When \<open>denoise_audio\<close> raises, the samples are the ones that were decoded, and
  the normalizer does exactly what it does with denoising switched off, on both paths: the
  same result and the same file system. In particular, when the remaining steps succeed on
  the decoded samples, the statistics are returned with the loudness measured on them and
  the gain \<open>target_lufs - L\<close>, and the file is written.
\<close>

theorem denoise_failure_is_not_fatal:
  "denoise_audio env data0 rate denoise_strength = Inl e \<longrightarrow>
     denoise_if_requested env True data0 rate denoise_strength = data0
     \<and> (sf_read env file_path fs = Inr (data0, rate)
        \<longrightarrow> normalize_native_format env file_path target_lufs True denoise_strength fs
            = normalize_native_format env file_path target_lufs False denoise_strength fs)
     \<and> (named_temporary_file env ''.wav'' fs = (Inr temp_wav, fs1) \<and>
        convert_to_wav env file_path temp_wav fs1 = (Inr (), fs2) \<and>
        sf_read env temp_wav fs2 = Inr (data0, rate)
        \<longrightarrow> normalize_compressed_format env file_path target_lufs original_format True
              denoise_strength fs
            = normalize_compressed_format env file_path target_lufs original_format False
                denoise_strength fs)
     \<and> (sf_read env file_path fs = Inr (data0, rate) \<and> rate > 0 \<and>
        4 / 10 \<le> real (len data0) / real rate \<and>
        integrated_loudness env rate data0 = Inr loudness \<and>
        loudness \<noteq> NInf \<and> loudness \<noteq> NaN \<and>
        pyln_normalize env data0 loudness target_lufs = Inr normalized \<and>
        sf_write env file_path normalized rate fs = (Inr (), fs')
        \<longrightarrow> (\<exists>st. normalize_native_format env file_path target_lufs True denoise_strength fs
                     = (Some st, fs') \<and>
                  stats_original_lufs st = loudness \<and>
                  stats_gain_db st = fsub (float_round env) target_lufs loudness))
     \<and> (file_content fs file_path = Some original \<and>
        named_temporary_file env ''.wav'' fs = (Inr temp_wav, fs1) \<and>
        convert_to_wav env file_path temp_wav fs1 = (Inr (), fs2) \<and>
        sf_read env temp_wav fs2 = Inr (data0, rate) \<and> rate > 0 \<and>
        4 / 10 \<le> real (len data0) / real rate \<and>
        integrated_loudness env rate data0 = Inr loudness \<and>
        loudness \<noteq> NInf \<and> loudness \<noteq> NaN \<and>
        pyln_normalize env data0 loudness target_lufs = Inr normalized \<and>
        sf_write env temp_wav normalized rate fs2 = (Inr (), fs3) \<and>
        convert_from_wav env temp_wav file_path original_format fs3 = (Inr (), fs4)
        \<longrightarrow> (\<exists>st fs''. normalize_compressed_format env file_path target_lufs original_format
                         True denoise_strength fs = (Inr (Some st), fs'') \<and>
                      file_content fs'' file_path = file_content fs4 file_path \<and>
                      stats_original_lufs st = loudness \<and>
                      stats_gain_db st = fsub (float_round env) target_lufs loudness))"
proof (intro conjI impI)
  assume f: "denoise_audio env data0 rate denoise_strength = Inl e"
  note fb = denoise_fallback [OF f]
  show "denoise_if_requested env True data0 rate denoise_strength = data0" by (rule fb)
  {
    assume "sf_read env file_path fs = Inr (data0, rate)"
    then show "normalize_native_format env file_path target_lufs True denoise_strength fs
            = normalize_native_format env file_path target_lufs False denoise_strength fs"
      by (simp add: normalize_native_format_def fb cong: sum.case_cong if_cong)
  }
  {
    assume "named_temporary_file env ''.wav'' fs = (Inr temp_wav, fs1) \<and>
        convert_to_wav env file_path temp_wav fs1 = (Inr (), fs2) \<and>
        sf_read env temp_wav fs2 = Inr (data0, rate)"
    then have "normalize_compressed_try env file_path target_lufs original_format True
                 denoise_strength fs
               = normalize_compressed_try env file_path target_lufs original_format False
                 denoise_strength fs"
      by (simp add: normalize_compressed_try_def fb cong: sum.case_cong if_cong prod.case_cong)
    then show "normalize_compressed_format env file_path target_lufs original_format True
              denoise_strength fs
            = normalize_compressed_format env file_path target_lufs original_format False
                denoise_strength fs"
      by (simp add: normalize_compressed_format_def)
  }
  {
    assume a: "sf_read env file_path fs = Inr (data0, rate) \<and> rate > 0 \<and>
        4 / 10 \<le> real (len data0) / real rate \<and>
        integrated_loudness env rate data0 = Inr loudness \<and>
        loudness \<noteq> NInf \<and> loudness \<noteq> NaN \<and>
        pyln_normalize env data0 loudness target_lufs = Inr normalized \<and>
        sf_write env file_path normalized rate fs = (Inr (), fs')"
    then show "\<exists>st. normalize_native_format env file_path target_lufs True denoise_strength fs
                     = (Some st, fs') \<and>
                  stats_original_lufs st = loudness \<and>
                  stats_gain_db st = fsub (float_round env) target_lufs loudness"
      using native_after_checks [of env file_path fs data0 rate True denoise_strength loudness
              target_lufs]
      by (auto simp: fb)
  }
  {
    assume a: "file_content fs file_path = Some original \<and>
        named_temporary_file env ''.wav'' fs = (Inr temp_wav, fs1) \<and>
        convert_to_wav env file_path temp_wav fs1 = (Inr (), fs2) \<and>
        sf_read env temp_wav fs2 = Inr (data0, rate) \<and> rate > 0 \<and>
        4 / 10 \<le> real (len data0) / real rate \<and>
        integrated_loudness env rate data0 = Inr loudness \<and>
        loudness \<noteq> NInf \<and> loudness \<noteq> NaN \<and>
        pyln_normalize env data0 loudness target_lufs = Inr normalized \<and>
        sf_write env temp_wav normalized rate fs2 = (Inr (), fs3) \<and>
        convert_from_wav env temp_wav file_path original_format fs3 = (Inr (), fs4)"
    define st where "st = \<lparr> stats_filename = name file_path,
                           stats_original_lufs = loudness,
                           stats_target_lufs = target_lufs,
                           stats_gain_db = fsub (float_round env) target_lufs loudness,
                           stats_duration = Fin (real (len data0) / real rate) \<rparr>"
    have body: "normalize_compressed_try env file_path target_lufs original_format True
           denoise_strength fs = (Some st, Some temp_wav, fs4)"
      using a compressed_try_after_checks [of env fs temp_wav fs1 file_path fs2 data0 rate True
              denoise_strength loudness target_lufs original_format]
      by (simp add: st_def fb)
    from a have t: "temp_wav \<noteq> []" using named_temporary_file_facts(1) by blast
    from a obtain c where c3: "file_content fs3 temp_wav = Some c"
      using external_write_ok by (fastforce simp: sf_write_def)
    from a obtain c' where cf: "file_content fs4 file_path = Some c'"
      using external_write_ok by (fastforce simp: convert_from_wav_def run_ffmpeg_def)
    show "\<exists>st fs''. normalize_compressed_format env file_path target_lufs original_format
                         True denoise_strength fs = (Inr (Some st), fs'') \<and>
                      file_content fs'' file_path = file_content fs4 file_path \<and>
                      stats_original_lufs st = loudness \<and>
                      stats_gain_db st = fsub (float_round env) target_lufs loudness"
    proof -
      from a have "file_content fs temp_wav = None" using named_temporary_file_facts(2) by blast
      with a have False: "file_path \<noteq> temp_wav" by auto
      with a have "file_content fs4 temp_wav = file_content fs3 temp_wav"
        by (auto simp: convert_from_wav_def run_ffmpeg_def intro: external_write_other)
      with c3 have c4: "file_content fs4 temp_wav = Some c" by simp
      from compressed_finally [OF body c4 t] False
      show ?thesis by (auto simp: st_def)
    qed
  }
qed

subsection \<open>The three claims on the example files\<close>

text \<open>The definitions that evaluate the example inputs.\<close>

lemmas demo_simps =
  demo_env_def demo_fs_def demo_decode_def demo_loudness_def
  sf_read_def sf_write_def file_content_def path_exists_def write_file_def unlink_def
  named_temporary_file_def convert_to_wav_def convert_from_wav_def run_ffmpeg_def
  external_write_def get_audio_duration_def denoise_if_requested_def isnan_def
  normalize_native_format_def normalize_compressed_try_def normalize_compressed_format_def
  name_def Let_def

text \<open>
  A stereo WAV file and a mono MP3 file, measured at -23 LUFS, with the target -16: the gain
  is 7 on both paths.
\<close>

theorem gain_is_target_minus_loudness_witness:
  "(\<exists>st fs'. normalize_native_format demo_env [''work'', ''a.wav''] (Fin (- 16)) False
               (Fin (1 / 2)) demo_fs = (Some st, fs') \<and>
             stats_original_lufs st = Fin (- 23) \<and> stats_gain_db st = Fin 7)
   \<and> (\<exists>st fs'. normalize_compressed_format demo_env [''work'', ''song.mp3''] (Fin (- 16)) ''mp3''
               False (Fin (1 / 2)) demo_fs = (Inr (Some st), fs') \<and>
             stats_original_lufs st = Fin (- 23) \<and> stats_gain_db st = Fin 7)"
proof -
  let ?a = "Arr2 Float64 2 [[Fin 1, Fin 2], [Fin 3, Fin 4]]"
  let ?m = "Arr1 Float64 [Fin 1, Fin 2]"
  let ?t = "[''tmp'', ''t.wav'']"
  let ?fsn = "snd (sf_write demo_env [''work'', ''a.wav''] ?a 2 demo_fs)"
  let ?fs1 = "snd (named_temporary_file demo_env ''.wav'' demo_fs)"
  let ?fs2 = "snd (convert_to_wav demo_env [''work'', ''song.mp3''] ?t ?fs1)"
  let ?fs3 = "snd (sf_write demo_env ?t ?m 2 ?fs2)"
  let ?fs4 = "snd (convert_from_wav demo_env ?t [''work'', ''song.mp3''] ''mp3'' ?fs3)"
  have rnd: "float_round demo_env (- 16 - (- 23)) = Fin 7" by (simp add: demo_env_def)
  have h1: "sf_read demo_env [''work'', ''a.wav''] demo_fs = Inr (?a, 2) \<and>
            (2 :: nat) > 0 \<and> 4 / 10 \<le> real (len ?a) / real (2 :: nat) \<and>
            integrated_loudness demo_env 2
              (denoise_if_requested demo_env False ?a 2 (Fin (1 / 2))) = Inr (Fin (- 23)) \<and>
            Fin (- 23) \<noteq> NInf \<and> Fin (- 23) \<noteq> NaN"
    by (simp add: demo_simps)
  have k1: "pyln_normalize demo_env (denoise_if_requested demo_env False ?a 2 (Fin (1 / 2)))
              (Fin (- 23)) (Fin (- 16)) = Inr ?a \<and>
            sf_write demo_env [''work'', ''a.wav''] ?a 2 demo_fs = (Inr (), ?fsn)"
    by (simp add: demo_simps)
  note n = gain_is_target_minus_loudness [where env = demo_env and fs = demo_fs
        and file_path = "[''work'', ''a.wav'']" and ?data0.0 = ?a and rate = 2
        and loudness = "Fin (- 23)" and denoise = False and denoise_strength = "Fin (1 / 2)"
        and target_lufs = "Fin (- 16)", THEN conjunct1, rule_format, OF h1]
  from n [THEN conjunct2, rule_format, OF k1] obtain st where
    st: "normalize_native_format demo_env [''work'', ''a.wav''] (Fin (- 16)) False (Fin (1 / 2))
           demo_fs = (Some st, ?fsn)"
    by blast
  from n [THEN conjunct1, rule_format, OF st]
  have g1: "stats_original_lufs st = Fin (- 23) \<and> stats_gain_db st = Fin 7"
    using rnd by simp
  have h2: "named_temporary_file demo_env ''.wav'' demo_fs = (Inr ?t, ?fs1) \<and>
            convert_to_wav demo_env [''work'', ''song.mp3''] ?t ?fs1 = (Inr (), ?fs2) \<and>
            sf_read demo_env ?t ?fs2 = Inr (?m, 2) \<and>
            (2 :: nat) > 0 \<and> 4 / 10 \<le> real (len ?m) / real (2 :: nat) \<and>
            integrated_loudness demo_env 2
              (denoise_if_requested demo_env False ?m 2 (Fin (1 / 2))) = Inr (Fin (- 23)) \<and>
            Fin (- 23) \<noteq> NInf \<and> Fin (- 23) \<noteq> NaN"
    by (simp add: demo_simps)
  have k2: "pyln_normalize demo_env (denoise_if_requested demo_env False ?m 2 (Fin (1 / 2)))
              (Fin (- 23)) (Fin (- 16)) = Inr ?m \<and>
            sf_write demo_env ?t ?m 2 ?fs2 = (Inr (), ?fs3) \<and>
            convert_from_wav demo_env ?t [''work'', ''song.mp3''] ''mp3'' ?fs3 = (Inr (), ?fs4)"
    by (simp add: demo_simps)
  note c = gain_is_target_minus_loudness [where env = demo_env and fs = demo_fs
        and file_path = "[''work'', ''song.mp3'']" and ?data0.0 = ?m and rate = 2
        and loudness = "Fin (- 23)" and denoise = False and denoise_strength = "Fin (1 / 2)"
        and target_lufs = "Fin (- 16)" and temp_wav = ?t and ?fs1.0 = ?fs1 and ?fs2.0 = ?fs2
        and original_format = "''mp3''", THEN conjunct2, rule_format, OF h2]
  from c [THEN conjunct2, rule_format, OF k2] obtain st' fs' where
    st': "normalize_compressed_format demo_env [''work'', ''song.mp3''] (Fin (- 16)) ''mp3'' False
            (Fin (1 / 2)) demo_fs = (Inr (Some st'), fs')"
    by blast
  from c [THEN conjunct1, rule_format, OF st']
  have g2: "stats_original_lufs st' = Fin (- 23) \<and> stats_gain_db st' = Fin 7"
    using rnd by simp
  show ?thesis using st g1 st' g2 by blast
qed

text \<open>
  A file of 0.1 seconds and a silent file, as WAV and as MP3: each is skipped and keeps its
  bytes.
\<close>

theorem skip_leaves_file_untouched_witness:
  "normalize_native_format demo_env [''work'', ''short.wav''] (Fin (- 16)) False (Fin (1 / 2))
     demo_fs = (None, demo_fs)
   \<and> normalize_native_format demo_env [''work'', ''silent.wav''] (Fin (- 16)) False (Fin (1 / 2))
     demo_fs = (None, demo_fs)
   \<and> (\<exists>fs'. normalize_compressed_format demo_env [''work'', ''short.mp3''] (Fin (- 16)) ''mp3''
               False (Fin (1 / 2)) demo_fs = (Inr None, fs') \<and>
             file_content fs' [''work'', ''short.mp3''] = Some ''short'')
   \<and> (\<exists>fs'. normalize_compressed_format demo_env [''work'', ''silent.mp3''] (Fin (- 16)) ''mp3''
               False (Fin (1 / 2)) demo_fs = (Inr None, fs') \<and>
             file_content fs' [''work'', ''silent.mp3''] = Some ''silent'')"
proof -
  let ?t = "[''tmp'', ''t.wav'']"
  let ?fs1 = "snd (named_temporary_file demo_env ''.wav'' demo_fs)"
  let ?short = "snd (convert_to_wav demo_env [''work'', ''short.mp3''] ?t ?fs1)"
  let ?silent = "snd (convert_to_wav demo_env [''work'', ''silent.mp3''] ?t ?fs1)"
  have h1: "sf_read demo_env [''work'', ''short.wav''] demo_fs = Inr (Arr1 Float64 [Fin 1], 10) \<and>
            (10 :: nat) > 0 \<and> real (len (Arr1 Float64 [Fin 1])) / real (10 :: nat) < 4 / 10"
    by (simp add: demo_simps)
  have h2: "sf_read demo_env [''work'', ''silent.wav''] demo_fs
              = Inr (Arr1 Float64 [Fin 0, Fin 0], 2) \<and>
            (2 :: nat) > 0 \<and> 4 / 10 \<le> real (len (Arr1 Float64 [Fin 0, Fin 0])) / real (2 :: nat) \<and>
            integrated_loudness demo_env 2
              (denoise_if_requested demo_env False (Arr1 Float64 [Fin 0, Fin 0]) 2 (Fin (1 / 2)))
              = Inr NInf \<and> (NInf = NInf \<or> NInf = NaN)"
    by (simp add: demo_simps)
  have h3: "named_temporary_file demo_env ''.wav'' demo_fs = (Inr ?t, ?fs1) \<and>
            convert_to_wav demo_env [''work'', ''short.mp3''] ?t ?fs1 = (Inr (), ?short) \<and>
            sf_read demo_env ?t ?short = Inr (Arr1 Float64 [Fin 1], 10) \<and>
            (10 :: nat) > 0 \<and> real (len (Arr1 Float64 [Fin 1])) / real (10 :: nat) < 4 / 10"
    by (simp add: demo_simps)
  have h4: "named_temporary_file demo_env ''.wav'' demo_fs = (Inr ?t, ?fs1) \<and>
            convert_to_wav demo_env [''work'', ''silent.mp3''] ?t ?fs1 = (Inr (), ?silent) \<and>
            sf_read demo_env ?t ?silent = Inr (Arr1 Float64 [Fin 0, Fin 0], 2) \<and>
            (2 :: nat) > 0 \<and> 4 / 10 \<le> real (len (Arr1 Float64 [Fin 0, Fin 0])) / real (2 :: nat) \<and>
            integrated_loudness demo_env 2
              (denoise_if_requested demo_env False (Arr1 Float64 [Fin 0, Fin 0]) 2 (Fin (1 / 2)))
              = Inr NInf \<and> (NInf = NInf \<or> NInf = NaN)"
    by (simp add: demo_simps)
  have c1: "normalize_native_format demo_env [''work'', ''short.wav''] (Fin (- 16)) False
              (Fin (1 / 2)) demo_fs = (None, demo_fs)"
    using skip_leaves_file_untouched [where env = demo_env and fs = demo_fs
        and file_path = "[''work'', ''short.wav'']" and ?data0.0 = "Arr1 Float64 [Fin 1]"
        and rate = 10] h1
    by blast
  have c2: "normalize_native_format demo_env [''work'', ''silent.wav''] (Fin (- 16)) False
              (Fin (1 / 2)) demo_fs = (None, demo_fs)"
    using skip_leaves_file_untouched [where env = demo_env and fs = demo_fs
        and file_path = "[''work'', ''silent.wav'']" and ?data0.0 = "Arr1 Float64 [Fin 0, Fin 0]"
        and rate = 2 and loudness = NInf and denoise = False
        and denoise_strength = "Fin (1 / 2)"] h2
    by blast
  have c3: "\<exists>fs'. normalize_compressed_format demo_env [''work'', ''short.mp3''] (Fin (- 16)) ''mp3''
               False (Fin (1 / 2)) demo_fs = (Inr None, fs') \<and>
             file_content fs' [''work'', ''short.mp3'']
               = file_content demo_fs [''work'', ''short.mp3'']"
    using skip_leaves_file_untouched [where env = demo_env and fs = demo_fs
        and file_path = "[''work'', ''short.mp3'']" and ?data0.0 = "Arr1 Float64 [Fin 1]"
        and rate = 10 and temp_wav = ?t and ?fs1.0 = ?fs1 and ?fs2.0 = ?short] h3
    by blast
  have c4: "\<exists>fs'. normalize_compressed_format demo_env [''work'', ''silent.mp3''] (Fin (- 16)) ''mp3''
               False (Fin (1 / 2)) demo_fs = (Inr None, fs') \<and>
             file_content fs' [''work'', ''silent.mp3'']
               = file_content demo_fs [''work'', ''silent.mp3'']"
    using skip_leaves_file_untouched [where env = demo_env and fs = demo_fs
        and file_path = "[''work'', ''silent.mp3'']" and ?data0.0 = "Arr1 Float64 [Fin 0, Fin 0]"
        and rate = 2 and loudness = NInf and denoise = False
        and denoise_strength = "Fin (1 / 2)"
        and temp_wav = ?t and ?fs1.0 = ?fs1 and ?fs2.0 = ?silent] h4
    by blast
  have f3: "file_content demo_fs [''work'', ''short.mp3''] = Some ''short''"
    by (simp add: demo_simps)
  have f4: "file_content demo_fs [''work'', ''silent.mp3''] = Some ''silent''"
    by (simp add: demo_simps)
  show ?thesis using c1 c2 c3 c4 f3 f4 by simp
qed

text \<open>
  Without the noise-reduction library \<open>denoise_audio\<close> raises \<open>ImportError\<close>; the
  files are normalized all the same.
\<close>

theorem denoise_failure_is_not_fatal_witness:
  "denoise_audio demo_env_no_nr demo_stereo 2 (Fin (1 / 2)) = Inl ImportError
   \<and> normalize_native_format demo_env_no_nr [''work'', ''a.wav''] (Fin (- 16)) True (Fin (1 / 2))
       demo_fs
     = normalize_native_format demo_env_no_nr [''work'', ''a.wav''] (Fin (- 16)) False
         (Fin (1 / 2)) demo_fs
   \<and> (\<exists>st fs'. normalize_native_format demo_env_no_nr [''work'', ''a.wav''] (Fin (- 16)) True
               (Fin (1 / 2)) demo_fs = (Some st, fs') \<and>
             file_content fs' [''work'', ''a.wav''] = Some ''normalized'' \<and>
             stats_original_lufs st = Fin (- 23) \<and> stats_gain_db st = Fin 7)
   \<and> normalize_compressed_format demo_env_no_nr [''work'', ''song.mp3''] (Fin (- 16)) ''mp3'' True
       (Fin (1 / 2)) demo_fs
     = normalize_compressed_format demo_env_no_nr [''work'', ''song.mp3''] (Fin (- 16)) ''mp3''
         False (Fin (1 / 2)) demo_fs
   \<and> (\<exists>st fs'. normalize_compressed_format demo_env_no_nr [''work'', ''song.mp3''] (Fin (- 16))
               ''mp3'' True (Fin (1 / 2)) demo_fs = (Inr (Some st), fs') \<and>
             file_content fs' [''work'', ''song.mp3''] = Some ''normalized'' \<and>
             stats_original_lufs st = Fin (- 23) \<and> stats_gain_db st = Fin 7)"
proof -
  let ?e = demo_env_no_nr
  let ?m = "Arr1 Float64 [Fin 1, Fin 2]"
  let ?t = "[''tmp'', ''t.wav'']"
  let ?fsn = "snd (sf_write ?e [''work'', ''a.wav''] demo_stereo 2 demo_fs)"
  let ?fs1 = "snd (named_temporary_file ?e ''.wav'' demo_fs)"
  let ?fs2 = "snd (convert_to_wav ?e [''work'', ''song.mp3''] ?t ?fs1)"
  let ?fs3 = "snd (sf_write ?e ?t ?m 2 ?fs2)"
  let ?fs4 = "snd (convert_from_wav ?e ?t [''work'', ''song.mp3''] ''mp3'' ?fs3)"
  note ds = demo_env_no_nr_def demo_stereo_def demo_simps
  have f1: "denoise_audio ?e demo_stereo 2 (Fin (1 / 2)) = Inl ImportError"
    by (simp add: denoise_audio_def demo_env_no_nr_def)
  have f2: "denoise_audio ?e ?m 2 (Fin (1 / 2)) = Inl ImportError"
    by (simp add: denoise_audio_def demo_env_no_nr_def)
  have h1: "sf_read ?e [''work'', ''a.wav''] demo_fs = Inr (demo_stereo, 2)"
    by (simp add: ds)
  have h2: "sf_read ?e [''work'', ''a.wav''] demo_fs = Inr (demo_stereo, 2) \<and> (2 :: nat) > 0 \<and>
        4 / 10 \<le> real (len demo_stereo) / real (2 :: nat) \<and>
        integrated_loudness ?e 2 demo_stereo = Inr (Fin (- 23)) \<and>
        Fin (- 23) \<noteq> NInf \<and> Fin (- 23) \<noteq> NaN \<and>
        pyln_normalize ?e demo_stereo (Fin (- 23)) (Fin (- 16)) = Inr demo_stereo \<and>
        sf_write ?e [''work'', ''a.wav''] demo_stereo 2 demo_fs = (Inr (), ?fsn)"
    by (simp add: ds)
  have h3: "named_temporary_file ?e ''.wav'' demo_fs = (Inr ?t, ?fs1) \<and>
        convert_to_wav ?e [''work'', ''song.mp3''] ?t ?fs1 = (Inr (), ?fs2) \<and>
        sf_read ?e ?t ?fs2 = Inr (?m, 2)"
    by (simp add: ds)
  have h4: "file_content demo_fs [''work'', ''song.mp3''] = Some ''mono'' \<and>
        named_temporary_file ?e ''.wav'' demo_fs = (Inr ?t, ?fs1) \<and>
        convert_to_wav ?e [''work'', ''song.mp3''] ?t ?fs1 = (Inr (), ?fs2) \<and>
        sf_read ?e ?t ?fs2 = Inr (?m, 2) \<and> (2 :: nat) > 0 \<and>
        4 / 10 \<le> real (len ?m) / real (2 :: nat) \<and>
        integrated_loudness ?e 2 ?m = Inr (Fin (- 23)) \<and>
        Fin (- 23) \<noteq> NInf \<and> Fin (- 23) \<noteq> NaN \<and>
        pyln_normalize ?e ?m (Fin (- 23)) (Fin (- 16)) = Inr ?m \<and>
        sf_write ?e ?t ?m 2 ?fs2 = (Inr (), ?fs3) \<and>
        convert_from_wav ?e ?t [''work'', ''song.mp3''] ''mp3'' ?fs3 = (Inr (), ?fs4)"
    by (simp add: ds)
  note n = denoise_failure_is_not_fatal [where env = ?e and fs = demo_fs
        and file_path = "[''work'', ''a.wav'']" and ?data0.0 = demo_stereo and rate = 2
        and denoise_strength = "Fin (1 / 2)" and e = ImportError
        and loudness = "Fin (- 23)" and target_lufs = "Fin (- 16)"
        and normalized = demo_stereo and fs' = ?fsn, rule_format, OF f1]
  note c = denoise_failure_is_not_fatal [where env = ?e and fs = demo_fs
        and file_path = "[''work'', ''song.mp3'']" and ?data0.0 = ?m and rate = 2
        and denoise_strength = "Fin (1 / 2)" and e = ImportError
        and loudness = "Fin (- 23)" and target_lufs = "Fin (- 16)"
        and normalized = ?m and temp_wav = ?t and ?fs1.0 = ?fs1 and ?fs2.0 = ?fs2
        and ?fs3.0 = ?fs3 and ?fs4.0 = ?fs4 and original_format = "''mp3''"
        and original = "''mono''", rule_format, OF f2]
  have c2: "normalize_native_format ?e [''work'', ''a.wav''] (Fin (- 16)) True (Fin (1 / 2))
       demo_fs
     = normalize_native_format ?e [''work'', ''a.wav''] (Fin (- 16)) False
         (Fin (1 / 2)) demo_fs"
    using n h1 by blast
  have c3: "\<exists>st. normalize_native_format ?e [''work'', ''a.wav''] (Fin (- 16)) True
               (Fin (1 / 2)) demo_fs = (Some st, ?fsn) \<and>
             stats_original_lufs st = Fin (- 23) \<and>
             stats_gain_db st = fsub (float_round ?e) (Fin (- 16)) (Fin (- 23))"
    using n h2 by blast
  have w3: "file_content ?fsn [''work'', ''a.wav''] = Some ''normalized''"
    by (simp add: ds)
  have c4: "normalize_compressed_format ?e [''work'', ''song.mp3''] (Fin (- 16)) ''mp3'' True
       (Fin (1 / 2)) demo_fs
     = normalize_compressed_format ?e [''work'', ''song.mp3''] (Fin (- 16)) ''mp3''
         False (Fin (1 / 2)) demo_fs"
    using c h3 by blast
  have c5: "\<exists>st fs''. normalize_compressed_format ?e [''work'', ''song.mp3''] (Fin (- 16))
               ''mp3'' True (Fin (1 / 2)) demo_fs = (Inr (Some st), fs'') \<and>
             file_content fs'' [''work'', ''song.mp3'']
               = file_content ?fs4 [''work'', ''song.mp3''] \<and>
             stats_original_lufs st = Fin (- 23) \<and>
             stats_gain_db st = fsub (float_round ?e) (Fin (- 16)) (Fin (- 23))"
    using c h4 by blast
  have w5: "file_content ?fs4 [''work'', ''song.mp3''] = Some ''normalized''"
    by (simp add: ds)
  have g: "fsub (float_round ?e) (Fin (- 16)) (Fin (- 23)) = Fin 7"
    by (simp add: demo_env_no_nr_def demo_env_def)
  show ?thesis using f1 c2 c3 w3 c4 c5 w5 unfolding g by metis
qed

section \<open>Dispatch by file extension\<close>

lemma rfind_none: "c \<notin> set s \<Longrightarrow> rfind c s = None"
  by (induction s) auto

lemma rfind_last_dot:
  "c \<notin> set ext \<Longrightarrow> rfind c (stem @ c # ext) = Some (length stem)"
  by (induction stem) (auto simp: rfind_none)

lemma lower_char_not_dot: "c \<noteq> CHR ''.'' \<Longrightarrow> lower_char c \<noteq> CHR ''.''"
  by (cases c) (auto simp: lower_char_def)

lemma lower_char_dot: "lower_char (CHR ''.'') = CHR ''.''"
  by (simp add: lower_char_def)

text \<open>The format of a file called \<open>stem.ext\<close> is \<open>ext\<close> in lower case.\<close>

lemma file_format_of_name:
  assumes "stem \<noteq> []" and "ext \<noteq> []" and "CHR ''.'' \<notin> set ext"
  shows "lstrip (CHR ''.'') (lower (path_suffix (dir @ [stem @ CHR ''.'' # ext]))) = lower ext"
proof -
  have n: "name (dir @ [stem @ CHR ''.'' # ext]) = stem @ CHR ''.'' # ext"
    by (simp add: name_def)
  have "path_suffix (dir @ [stem @ CHR ''.'' # ext]) = CHR ''.'' # ext"
    using assms by (simp add: path_suffix_def n rfind_last_dot)
  moreover have "lstrip (CHR ''.'') (lower (CHR ''.'' # ext)) = lower ext"
  proof -
    obtain x xs where e: "ext = x # xs" using assms(2) by (cases ext) auto
    with assms(3) have "x \<noteq> CHR ''.''" by auto
    then have "lower_char x \<noteq> CHR ''.''" by (rule lower_char_not_dot)
    then show ?thesis by (simp add: lstrip_def lower_def e lower_char_dot)
  qed
  ultimately show ?thesis by simp
qed


lemma external_write_wrote:
  "external_write p (Wrote b) fs = (Inr u, fs') \<Longrightarrow> file_content fs' p = Some b"
  by (auto simp: external_write_def write_file_self split: sum.splits)

text \<open>The bridged normalizer when every step succeeds.\<close>

lemma compressed_success:
  assumes ex: "file_content fs file_path = Some original"
      and tmp: "named_temporary_file env ''.wav'' fs = (Inr temp_wav, fs1)"
      and conv: "convert_to_wav env file_path temp_wav fs1 = (Inr (), fs2)"
      and rd: "sf_read env temp_wav fs2 = Inr (data0, rate)"
      and dur: "rate > 0" "4 / 10 \<le> real (len data0) / real rate"
      and loud: "integrated_loudness env rate
                   (denoise_if_requested env denoise data0 rate denoise_strength) = Inr loudness"
                "loudness \<noteq> NInf" "loudness \<noteq> NaN"
      and norm: "pyln_normalize env (denoise_if_requested env denoise data0 rate denoise_strength)
                   loudness target_lufs = Inr normalized"
      and wr: "sf_write env temp_wav normalized rate fs2 = (Inr (), fs3)"
      and enc: "convert_from_wav env temp_wav file_path original_format fs3 = (Inr (), fs4)"
  shows "\<exists>fs'. normalize_compressed_format env file_path target_lufs original_format denoise
                 denoise_strength fs
               = (Inr (Some \<lparr> stats_filename = name file_path,
                              stats_original_lufs = loudness,
                              stats_target_lufs = target_lufs,
                              stats_gain_db = fsub (float_round env) target_lufs loudness,
                              stats_duration = Fin (real (len data0) / real rate) \<rparr>), fs') \<and>
              file_content fs' file_path = file_content fs4 file_path"
proof -
  define st where "st = \<lparr> stats_filename = name file_path,
                           stats_original_lufs = loudness,
                           stats_target_lufs = target_lufs,
                           stats_gain_db = fsub (float_round env) target_lufs loudness,
                           stats_duration = Fin (real (len data0) / real rate) \<rparr>"
  have body: "normalize_compressed_try env file_path target_lufs original_format denoise
           denoise_strength fs = (Some st, Some temp_wav, fs4)"
    using compressed_try_after_checks [OF tmp conv rd dur loud(1)] loud(2,3) norm wr enc
    by (simp add: st_def)
  note t = named_temporary_file_facts [OF tmp]
  from t(2) ex have ne: "file_path \<noteq> temp_wav" by auto
  from wr obtain c where c3: "file_content fs3 temp_wav = Some c"
    using external_write_ok by (fastforce simp: sf_write_def)
  from enc ne have "file_content fs4 temp_wav = file_content fs3 temp_wav"
    by (auto simp: convert_from_wav_def run_ffmpeg_def intro: external_write_other)
  with c3 have c4: "file_content fs4 temp_wav = Some c" by simp
  from compressed_finally [OF body c4 t(1)] ne
  show ?thesis by (auto simp: st_def)
qed

text \<open>
  Claim C6. For a file called \<open>stem.ext\<close>, \<open>normalize_audio_file\<close> looks at \<open>ext\<close> in
  lower case: \<open>wav\<close>, \<open>flac\<close> and \<open>ogg\<close> go to the native normalizer; \<open>mp3\<close>, \<open>m4a\<close>,
  \<open>wma\<close> and \<open>aac\<close> go to the bridged normalizer, with the lower-case extension as the
  format to encode back to; every other extension, and a name without one, returns \<open>None\<close>
  and leaves the file system as it is. The bridge decodes with the transcoder to 16-bit PCM
  at 48 kHz in two channels, re-encodes with the codec and bitrate of the format's entry in
  the table (192k for each of the four), and what the audio file holds in the end is what
  the transcoder wrote for that command. A format outside the table is encoded with
  \<open>-acodec copy\<close>.
\<close>

theorem dispatch_by_extension:
  "(stem \<noteq> [] \<and> ext \<noteq> [] \<and> CHR ''.'' \<notin> set ext \<and> file_path = dir @ [stem @ CHR ''.'' # ext]
      \<longrightarrow>
      (lower ext \<in> {''wav'', ''flac'', ''ogg''}
         \<longrightarrow> normalize_audio_file env file_path target_lufs denoise denoise_strength fs
             = (Inr (fst (normalize_native_format env file_path target_lufs denoise
                            denoise_strength fs)),
                snd (normalize_native_format env file_path target_lufs denoise
                       denoise_strength fs)))
      \<and> (lower ext \<in> {''mp3'', ''m4a'', ''wma'', ''aac''}
         \<longrightarrow> normalize_audio_file env file_path target_lufs denoise denoise_strength fs
             = normalize_compressed_format env file_path target_lufs (lower ext) denoise
                 denoise_strength fs)
      \<and> (lower ext \<notin> {''wav'', ''flac'', ''ogg'', ''mp3'', ''m4a'', ''wma'', ''aac''}
         \<longrightarrow> normalize_audio_file env file_path target_lufs denoise denoise_strength fs
             = (Inr None, fs)))
   \<and> (path_suffix file_path = []
      \<longrightarrow> normalize_audio_file env file_path target_lufs denoise denoise_strength fs
          = (Inr None, fs))
   \<and> (file_content fs file_path = Some original \<and>
      named_temporary_file env ''.wav'' fs = (Inr temp_wav, fs1) \<and>
      convert_to_wav env file_path temp_wav fs1 = (Inr (), fs2) \<and>
      sf_read env temp_wav fs2 = Inr (data0, rate) \<and> rate > 0 \<and>
      4 / 10 \<le> real (len data0) / real rate \<and>
      integrated_loudness env rate
        (denoise_if_requested env denoise data0 rate denoise_strength) = Inr loudness \<and>
      loudness \<noteq> NInf \<and> loudness \<noteq> NaN \<and>
      pyln_normalize env (denoise_if_requested env denoise data0 rate denoise_strength)
        loudness target_lufs = Inr normalized \<and>
      sf_write env temp_wav normalized rate fs2 = (Inr (), fs3) \<and>
      ffmpeg env (convert_from_wav_cmd temp_wav file_path original_format)
        [file_content fs3 temp_wav] = Wrote encoded \<and>
      convert_from_wav env temp_wav file_path original_format fs3 = (Inr (), fs4)
      \<longrightarrow> (\<exists>st fs'. normalize_compressed_format env file_path target_lufs original_format
                      denoise denoise_strength fs = (Inr (Some st), fs') \<and>
                   file_content fs' file_path = Some encoded))
   \<and> convert_to_wav env input_path output_path fs
     = run_ffmpeg env
         [''ffmpeg'', ''-i'', str_path input_path, ''-y'', ''-acodec'', ''pcm_s16le'',
          ''-ar'', ''48000'', ''-ac'', ''2'', ''-loglevel'', ''error'', str_path output_path]
         [input_path] output_path fs
   \<and> convert_from_wav env input_wav output_path target_format fs
     = run_ffmpeg env
         ([''ffmpeg'', ''-i'', str_path input_wav, ''-y''] @ codec_args target_format
          @ [''-loglevel'', ''error'', str_path output_path])
         [input_wav] output_path fs
   \<and> codec_args ''mp3'' = [''-acodec'', ''libmp3lame'', ''-b:a'', ''192k'']
   \<and> codec_args ''m4a'' = [''-acodec'', ''aac'', ''-b:a'', ''192k'']
   \<and> codec_args ''wma'' = [''-acodec'', ''wmav2'', ''-b:a'', ''192k'']
   \<and> codec_args ''aac'' = [''-acodec'', ''aac'', ''-b:a'', ''192k'']
   \<and> (target_format \<notin> {''mp3'', ''m4a'', ''wma'', ''aac''}
      \<longrightarrow> codec_args target_format = [''-acodec'', ''copy''])"
proof (intro conjI impI)
  assume a: "stem \<noteq> [] \<and> ext \<noteq> [] \<and> CHR ''.'' \<notin> set ext \<and>
             file_path = dir @ [stem @ CHR ''.'' # ext]"
  then have ff: "lstrip (CHR ''.'') (lower (path_suffix file_path)) = lower ext"
    using file_format_of_name by blast
  {
    assume "lower ext \<in> {''wav'', ''flac'', ''ogg''}"
    then show "normalize_audio_file env file_path target_lufs denoise denoise_strength fs
             = (Inr (fst (normalize_native_format env file_path target_lufs denoise
                            denoise_strength fs)),
                snd (normalize_native_format env file_path target_lufs denoise
                       denoise_strength fs))"
      by (auto simp: normalize_audio_file_def ff split: prod.splits)
  }
  {
    assume "lower ext \<in> {''mp3'', ''m4a'', ''wma'', ''aac''}"
    then show "normalize_audio_file env file_path target_lufs denoise denoise_strength fs
             = normalize_compressed_format env file_path target_lufs (lower ext) denoise
                 denoise_strength fs"
      by (auto simp: normalize_audio_file_def ff)
  }
  {
    assume "lower ext \<notin> {''wav'', ''flac'', ''ogg'', ''mp3'', ''m4a'', ''wma'', ''aac''}"
    then show "normalize_audio_file env file_path target_lufs denoise denoise_strength fs
             = (Inr None, fs)"
      by (auto simp: normalize_audio_file_def ff)
  }
next
  assume a: "file_content fs file_path = Some original \<and>
      named_temporary_file env ''.wav'' fs = (Inr temp_wav, fs1) \<and>
      convert_to_wav env file_path temp_wav fs1 = (Inr (), fs2) \<and>
      sf_read env temp_wav fs2 = Inr (data0, rate) \<and> rate > 0 \<and>
      4 / 10 \<le> real (len data0) / real rate \<and>
      integrated_loudness env rate
        (denoise_if_requested env denoise data0 rate denoise_strength) = Inr loudness \<and>
      loudness \<noteq> NInf \<and> loudness \<noteq> NaN \<and>
      pyln_normalize env (denoise_if_requested env denoise data0 rate denoise_strength)
        loudness target_lufs = Inr normalized \<and>
      sf_write env temp_wav normalized rate fs2 = (Inr (), fs3) \<and>
      ffmpeg env (convert_from_wav_cmd temp_wav file_path original_format)
        [file_content fs3 temp_wav] = Wrote encoded \<and>
      convert_from_wav env temp_wav file_path original_format fs3 = (Inr (), fs4)"
  then have "file_content fs4 file_path = Some encoded"
    by (auto simp: convert_from_wav_def run_ffmpeg_def intro: external_write_wrote)
  moreover from a have "\<exists>fs'. normalize_compressed_format env file_path target_lufs
                 original_format denoise denoise_strength fs
               = (Inr (Some \<lparr> stats_filename = name file_path,
                              stats_original_lufs = loudness,
                              stats_target_lufs = target_lufs,
                              stats_gain_db = fsub (float_round env) target_lufs loudness,
                              stats_duration = Fin (real (len data0) / real rate) \<rparr>), fs') \<and>
              file_content fs' file_path = file_content fs4 file_path"
    by (intro compressed_success) auto
  ultimately show "\<exists>st fs'. normalize_compressed_format env file_path target_lufs
                      original_format denoise denoise_strength fs = (Inr (Some st), fs') \<and>
                   file_content fs' file_path = Some encoded"
    by auto
next
  assume "path_suffix file_path = []"
  then show "normalize_audio_file env file_path target_lufs denoise denoise_strength fs
          = (Inr None, fs)"
    by (simp add: normalize_audio_file_def lower_def lstrip_def)
next
  assume "target_format \<notin> {''mp3'', ''m4a'', ''wma'', ''aac''}"
  then show "codec_args target_format = [''-acodec'', ''copy'']"
    by (simp add: codec_args_def codec_map_def)
qed (simp_all add: convert_to_wav_def convert_from_wav_def convert_from_wav_cmd_def
       codec_args_def codec_map_def)

text \<open>
  The dispatch on the example files: a WAV file in capitals, an MP3 file, and two files
  that are not audio.
\<close>

theorem dispatch_by_extension_witness:
  "normalize_audio_file demo_env [''work'', ''LOUD.WAV''] (Fin (- 16)) False (Fin (1 / 2)) demo_fs
     = (Inr (fst (normalize_native_format demo_env [''work'', ''LOUD.WAV''] (Fin (- 16)) False
                    (Fin (1 / 2)) demo_fs)),
        snd (normalize_native_format demo_env [''work'', ''LOUD.WAV''] (Fin (- 16)) False
               (Fin (1 / 2)) demo_fs))
   \<and> normalize_audio_file demo_env [''work'', ''song.mp3''] (Fin (- 16)) False (Fin (1 / 2)) demo_fs
     = normalize_compressed_format demo_env [''work'', ''song.mp3''] (Fin (- 16)) ''mp3'' False
         (Fin (1 / 2)) demo_fs
   \<and> normalize_audio_file demo_env [''work'', ''notes.txt''] (Fin (- 16)) False (Fin (1 / 2))
       demo_fs = (Inr None, demo_fs)
   \<and> normalize_audio_file demo_env [''work'', ''README''] (Fin (- 16)) False (Fin (1 / 2))
       demo_fs = (Inr None, demo_fs)
   \<and> (\<exists>st fs'. normalize_compressed_format demo_env [''work'', ''song.mp3''] (Fin (- 16)) ''mp3''
                 False (Fin (1 / 2)) demo_fs = (Inr (Some st), fs') \<and>
               file_content fs' [''work'', ''song.mp3''] = Some ''normalized'')
   \<and> codec_args ''opus'' = [''-acodec'', ''copy'']"
proof -
  let ?m = "Arr1 Float64 [Fin 1, Fin 2]"
  let ?t = "[''tmp'', ''t.wav'']"
  let ?p = "[''work'', ''song.mp3'']"
  let ?fs1 = "snd (named_temporary_file demo_env ''.wav'' demo_fs)"
  let ?fs2 = "snd (convert_to_wav demo_env ?p ?t ?fs1)"
  let ?fs3 = "snd (sf_write demo_env ?t ?m 2 ?fs2)"
  let ?fs4 = "snd (convert_from_wav demo_env ?t ?p ''mp3'' ?fs3)"
  have l1: "lower ''WAV'' = ''wav''" "lower ''mp3'' = ''mp3''" "lower ''txt'' = ''txt''"
    by (simp_all add: lower_def lower_char_def)
  have c1: "normalize_audio_file demo_env [''work'', ''LOUD.WAV''] (Fin (- 16)) False (Fin (1 / 2))
       demo_fs
     = (Inr (fst (normalize_native_format demo_env [''work'', ''LOUD.WAV''] (Fin (- 16)) False
                    (Fin (1 / 2)) demo_fs)),
        snd (normalize_native_format demo_env [''work'', ''LOUD.WAV''] (Fin (- 16)) False
               (Fin (1 / 2)) demo_fs))"
    using dispatch_by_extension [where stem = "''LOUD''" and ext = "''WAV''" and dir = "[''work'']"
        and file_path = "[''work'', ''LOUD.WAV'']" and env = demo_env and fs = demo_fs]
    by (simp add: l1)
  have c2: "normalize_audio_file demo_env ?p (Fin (- 16)) False (Fin (1 / 2)) demo_fs
     = normalize_compressed_format demo_env ?p (Fin (- 16)) ''mp3'' False (Fin (1 / 2)) demo_fs"
    using dispatch_by_extension [where stem = "''song''" and ext = "''mp3''" and dir = "[''work'']"
        and file_path = ?p and env = demo_env and fs = demo_fs
        and target_lufs = "Fin (- 16)" and denoise = False and denoise_strength = "Fin (1 / 2)"]
    by (simp add: l1)
  have c3: "normalize_audio_file demo_env [''work'', ''notes.txt''] (Fin (- 16)) False (Fin (1 / 2))
       demo_fs = (Inr None, demo_fs)"
    using dispatch_by_extension [where stem = "''notes''" and ext = "''txt''" and dir = "[''work'']"
        and file_path = "[''work'', ''notes.txt'']" and env = demo_env and fs = demo_fs]
    by (simp add: l1)
  have s4: "path_suffix [''work'', ''README''] = []"
    by (simp add: path_suffix_def name_def)
  have c4: "normalize_audio_file demo_env [''work'', ''README''] (Fin (- 16)) False (Fin (1 / 2))
       demo_fs = (Inr None, demo_fs)"
    using dispatch_by_extension [where file_path = "[''work'', ''README'']" and env = demo_env
        and fs = demo_fs and target_lufs = "Fin (- 16)" and denoise = False
        and denoise_strength = "Fin (1 / 2)"] s4
    by blast
  have h5: "file_content demo_fs ?p = Some ''mono'' \<and>
      named_temporary_file demo_env ''.wav'' demo_fs = (Inr ?t, ?fs1) \<and>
      convert_to_wav demo_env ?p ?t ?fs1 = (Inr (), ?fs2) \<and>
      sf_read demo_env ?t ?fs2 = Inr (?m, 2) \<and> (2 :: nat) > 0 \<and>
      4 / 10 \<le> real (len ?m) / real (2 :: nat) \<and>
      integrated_loudness demo_env 2
        (denoise_if_requested demo_env False ?m 2 (Fin (1 / 2))) = Inr (Fin (- 23)) \<and>
      Fin (- 23) \<noteq> NInf \<and> Fin (- 23) \<noteq> NaN \<and>
      pyln_normalize demo_env (denoise_if_requested demo_env False ?m 2 (Fin (1 / 2)))
        (Fin (- 23)) (Fin (- 16)) = Inr ?m \<and>
      sf_write demo_env ?t ?m 2 ?fs2 = (Inr (), ?fs3) \<and>
      ffmpeg demo_env (convert_from_wav_cmd ?t ?p ''mp3'') [file_content ?fs3 ?t]
        = Wrote ''normalized'' \<and>
      convert_from_wav demo_env ?t ?p ''mp3'' ?fs3 = (Inr (), ?fs4)"
    by (simp add: demo_simps)
  have c5: "\<exists>st fs'. normalize_compressed_format demo_env ?p (Fin (- 16)) ''mp3''
                 False (Fin (1 / 2)) demo_fs = (Inr (Some st), fs') \<and>
               file_content fs' ?p = Some ''normalized''"
    using dispatch_by_extension [where file_path = ?p and env = demo_env and fs = demo_fs
        and original = "''mono''" and temp_wav = ?t and ?fs1.0 = ?fs1 and ?fs2.0 = ?fs2
        and ?data0.0 = ?m and rate = 2 and denoise = False and denoise_strength = "Fin (1 / 2)"
        and loudness = "Fin (- 23)" and target_lufs = "Fin (- 16)" and normalized = ?m
        and ?fs3.0 = ?fs3 and original_format = "''mp3''" and encoded = "''normalized''"
        and ?fs4.0 = ?fs4] h5
    by blast
  have c6: "codec_args ''opus'' = [''-acodec'', ''copy'']"
    using dispatch_by_extension [where target_format = "''opus''"] by simp
  show ?thesis using c1 c2 c3 c4 c5 c6 by blast
qed

section \<open>The batch loops\<close>

lemma overwrite_check_forced: "overwrite_check output_path True stdin fs = (Inr True, stdin)"
  by (simp add: overwrite_check_def)

lemma process_single_pptx_forced:
  "\<exists>code fs'. process_single_pptx env input_path output_path target_lufs True denoise
                 denoise_strength stdin fs = (Inr code, stdin, fs')"
  by (auto simp: process_single_pptx_def overwrite_check_forced split: prod.splits bool.splits)

lemma process_single_video_forced:
  "\<exists>code fs'. process_single_video env input_path output_path target_lufs True denoise
                 denoise_strength stdin fs = (Inr code, stdin, fs')"
  by (auto simp: process_single_video_def overwrite_check_forced split: prod.splits bool.splits)

text \<open>
  With \<open>force\<close> no question is asked: the loop then runs every job and counts each one, as
  a success or as an error.
\<close>

lemma cli_batch_loop_forced:
  "\<exists>s e fs'. cli_batch_loop env files output_dir target_lufs True denoise denoise_strength
                success_count error_count stdin fs = (Inr (s, e), stdin, fs') \<and>
              s + e = success_count + error_count + length files"
proof (induction files arbitrary: success_count error_count fs)
  case Nil
  show ?case by simp
next
  case (Cons f files)
  obtain code fs1 where p: "process_single_pptx env f (output_dir @ [name f]) target_lufs True
      denoise denoise_strength stdin fs = (Inr code, stdin, fs1)"
    using process_single_pptx_forced by blast
  show ?case
  proof (cases "code = 0")
    case True
    with p Cons.IH [of "success_count + 1" error_count fs1] show ?thesis by (auto simp: Let_def)
  next
    case False
    with p Cons.IH [of success_count "error_count + 1" fs1] show ?thesis by (auto simp: Let_def)
  qed
qed

lemma video_cli_batch_loop_forced:
  "\<exists>s e fs'. video_cli_batch_loop env files output_dir target_lufs True denoise denoise_strength
                success_count error_count stdin fs = (Inr (s, e), stdin, fs') \<and>
              s + e = success_count + error_count + length files"
proof (induction files arbitrary: success_count error_count fs)
  case Nil
  show ?case by simp
next
  case (Cons f files)
  obtain code fs1 where p: "process_single_video env f (output_dir @ [name f]) target_lufs True
      denoise denoise_strength stdin fs = (Inr code, stdin, fs1)"
    using process_single_video_forced by blast
  show ?case
  proof (cases "code = 0")
    case True
    with p Cons.IH [of "success_count + 1" error_count fs1] show ?thesis by (auto simp: Let_def)
  next
    case False
    with p Cons.IH [of success_count "error_count + 1" fs1] show ?thesis by (auto simp: Let_def)
  qed
qed

text \<open>
  Claim C9. The claim is that a failing job does not stop the remaining jobs, every job of
  the list being attempted in order, and that the batch exits with 0 exactly when no job
  failed. The loops have no handler of their own, and a job asks the overwrite question
  before its \<open>try\<close>. In the batch below the output of the first job exists, \<open>force\<close> is
  off and standard input is at its end: the question raises \<open>EOFError\<close>, which leaves the
  first job, the loop and \<open>process_batch_directory\<close>; the second job, which would end with
  status 0, is never attempted and its output is not written; no job was counted as failed,
  and \<open>main\<close> exits with 1. Both tools behave so.
\<close>

theorem batch_stops_at_unanswered_prompt:
  "cli_batch_loop demo_env [[''in'', ''a.pptx''], [''in'', ''b.pptx'']] [''out''] (Fin (- 16))
     False False (Fin (1 / 2)) 0 0 [] demo_prompt_fs = (Inl EOFError, [], demo_prompt_fs)
   \<and> process_single_pptx demo_env [''in'', ''a.pptx''] [''out'', ''a.pptx''] (Fin (- 16)) False
         False (Fin (1 / 2)) [] demo_prompt_fs = (Inl EOFError, [], demo_prompt_fs)
   \<and> fst (process_single_pptx demo_env [''in'', ''b.pptx''] [''out'', ''b.pptx''] (Fin (- 16))
         False False (Fin (1 / 2)) [] demo_prompt_fs) = Inr 0
   \<and> cli_process_batch_directory demo_env [''in''] [''out''] (Fin (- 16)) False False
         (Fin (1 / 2)) [] demo_prompt_fs = (Inl EOFError, [], demo_prompt_fs)
   \<and> main_batch_mode demo_env [''in''] [''out''] (Fin (- 16)) False False (Fin (1 / 2)) []
         demo_prompt_fs = (1, [], demo_prompt_fs)
   \<and> lookup demo_prompt_fs [''out'', ''b.pptx''] = None
   \<and> video_cli_batch_loop demo_env [[''in'', ''x.mp4''], [''in'', ''y.mp4'']] [''out'']
         (Fin (- 16)) False False (Fin (1 / 2)) 0 0 [] demo_prompt_fs
       = (Inl EOFError, [], demo_prompt_fs)
   \<and> process_single_video demo_env [''in'', ''x.mp4''] [''out'', ''x.mp4''] (Fin (- 16)) False
         False (Fin (1 / 2)) [] demo_prompt_fs = (Inl EOFError, [], demo_prompt_fs)
   \<and> fst (process_single_video demo_env [''in'', ''y.mp4''] [''out'', ''y.mp4''] (Fin (- 16))
         False False (Fin (1 / 2)) [] demo_prompt_fs) = Inr 0
   \<and> video_cli_process_batch_directory demo_env [''in''] [''out''] (Fin (- 16)) False False
         (Fin (1 / 2)) [] demo_prompt_fs = (Inl EOFError, [], demo_prompt_fs)
   \<and> video_main_batch_mode demo_env [''in''] [''out''] (Fin (- 16)) False False (Fin (1 / 2)) []
         demo_prompt_fs = (1, [], demo_prompt_fs)
   \<and> lookup demo_prompt_fs [''out'', ''y.mp4''] = None"
  by code_simp

section \<open>Skipped audio and the exit status\<close>

text \<open>
  Claim C4, as the code has it. In \<open>process_single_pptx\<close> a skipped audio file is not an
  error: when the validation, the extraction and the repack succeed (and the temporary
  directory is made and removed), the job ends with status 0 whatever
  \<open>normalize_audio_files\<close> returned, also the empty list of a presentation whose every
  audio file was skipped. In \<open>process_single_video\<close> the guard \<open>if not stats: return 1\<close>
  makes a skipped normalization end the job with status 1: the audio is not replaced and
  the output is not written.
\<close>

theorem skip_exit_status_by_tool:
  "(validate_pptx_file env input_path fs = (True, msg) \<and>
    overwrite_check output_path force stdin fs = (Inr True, stdin') \<and>
    temp_directory_enter env fs = (Inr temp_dir, fs0) \<and>
    extract_pptx env input_path temp_dir fs0 = (Inr (extract_path, audio_files), fs1) \<and>
    audio_files \<noteq> [] \<and>
    normalize_audio_files env audio_files target_lufs denoise denoise_strength fs1
      = (Inr stats, fs2) \<and>
    reconstruct_pptx env extract_path output_path fs2 = (Inr (), fs3) \<and>
    temp_directory_exit temp_dir fs3 = (Inr (), fs4)
    \<longrightarrow> process_single_pptx env input_path output_path target_lufs force denoise
          denoise_strength stdin fs = (Inr 0, stdin', fs4))
   \<and> (validate_video_file env input_path fs = (True, msg) \<and>
      overwrite_check output_path force stdin fs = (Inr True, stdin') \<and>
      temp_directory_enter env fs = (Inr temp_dir, fs0) \<and>
      extract_audio_from_video env input_path (temp_dir @ [''extracted_audio.wav'']) fs0
        = (Inr (), fs1) \<and>
      normalize_audio_file env (temp_dir @ [''extracted_audio.wav'']) target_lufs denoise
        denoise_strength fs1 = (Inr None, fs2)
      \<longrightarrow> process_single_video env input_path output_path target_lufs force denoise
            denoise_strength stdin fs
          = (Inr 1, stdin', snd (temp_directory_exit temp_dir fs2)))"
proof (intro conjI impI)
  assume a: "validate_pptx_file env input_path fs = (True, msg) \<and>
    overwrite_check output_path force stdin fs = (Inr True, stdin') \<and>
    temp_directory_enter env fs = (Inr temp_dir, fs0) \<and>
    extract_pptx env input_path temp_dir fs0 = (Inr (extract_path, audio_files), fs1) \<and>
    audio_files \<noteq> [] \<and>
    normalize_audio_files env audio_files target_lufs denoise denoise_strength fs1
      = (Inr stats, fs2) \<and>
    reconstruct_pptx env extract_path output_path fs2 = (Inr (), fs3) \<and>
    temp_directory_exit temp_dir fs3 = (Inr (), fs4)"
  then show "process_single_pptx env input_path output_path target_lufs force denoise
          denoise_strength stdin fs = (Inr 0, stdin', fs4)"
    by (simp add: process_single_pptx_def with_temp_directory_def process_single_pptx_body_def)
next
  assume a: "validate_video_file env input_path fs = (True, msg) \<and>
      overwrite_check output_path force stdin fs = (Inr True, stdin') \<and>
      temp_directory_enter env fs = (Inr temp_dir, fs0) \<and>
      extract_audio_from_video env input_path (temp_dir @ [''extracted_audio.wav'']) fs0
        = (Inr (), fs1) \<and>
      normalize_audio_file env (temp_dir @ [''extracted_audio.wav'']) target_lufs denoise
        denoise_strength fs1 = (Inr None, fs2)"
  then show "process_single_video env input_path output_path target_lufs force denoise
            denoise_strength stdin fs
          = (Inr 1, stdin', snd (temp_directory_exit temp_dir fs2))"
    by (simp add: process_single_video_def with_temp_directory_def process_single_video_body_def
          Let_def split: prod.splits sum.splits)
qed

text \<open>
  The claim as it was stated, that a skip never makes the exit status non-zero, fails for
  the video tool: the video below passes the validation, its audio is extracted, the
  normalization is skipped (the audio lasts 0.1 seconds), and the job and the batch end
  with status 1.
\<close>

theorem video_skip_exits_nonzero:
  "validate_video_file demo_env [''in'', ''x.mp4''] demo_skip_fs = (True, None)
   \<and> fst (extract_audio_from_video demo_env [''in'', ''x.mp4'']
             [''tmp'', ''pptx_normalizer_0'', ''extracted_audio.wav'']
             (snd (temp_directory_enter demo_env demo_skip_fs))) = Inr ()
   \<and> fst (normalize_audio_file demo_env [''tmp'', ''pptx_normalizer_0'', ''extracted_audio.wav'']
             (Fin (- 16)) False (Fin (1 / 2))
             (snd (extract_audio_from_video demo_env [''in'', ''x.mp4'']
                     [''tmp'', ''pptx_normalizer_0'', ''extracted_audio.wav'']
                     (snd (temp_directory_enter demo_env demo_skip_fs))))) = Inr None
   \<and> process_single_video demo_env [''in'', ''x.mp4''] [''out'', ''x.mp4''] (Fin (- 16)) False
         False (Fin (1 / 2)) [] demo_skip_fs = (Inr 1, [], demo_skip_fs)
   \<and> video_main_batch_mode demo_env [''in''] [''out''] (Fin (- 16)) False False (Fin (1 / 2)) []
         demo_skip_fs = (1, [], demo_skip_fs)"
  by code_simp

text \<open>
  The presentation whose only audio file is skipped ends with status 0, the video with
  status 1.
\<close>

theorem skip_exit_status_by_tool_witness:
  "fst (normalize_audio_files demo_env
          [[''tmp'', ''pptx_normalizer_0'', ''pptx_contents'', ''ppt'', ''media'', ''a.wav'']]
          (Fin (- 16)) False (Fin (1 / 2))
          (snd (extract_pptx demo_env [''in'', ''t.pptx''] [''tmp'', ''pptx_normalizer_0'']
                  (snd (temp_directory_enter demo_env demo_skip_fs))))) = Inr []
   \<and> fst (process_single_pptx demo_env [''in'', ''t.pptx''] [''out'', ''t.pptx''] (Fin (- 16))
            False False (Fin (1 / 2)) [] demo_skip_fs) = Inr 0
   \<and> fst (process_single_video demo_env [''in'', ''x.mp4''] [''out'', ''x.mp4''] (Fin (- 16))
            False False (Fin (1 / 2)) [] demo_skip_fs) = Inr 1"
proof -
  let ?td = "[''tmp'', ''pptx_normalizer_0'']"
  let ?ep = "[''tmp'', ''pptx_normalizer_0'', ''pptx_contents'']"
  let ?au = "[[''tmp'', ''pptx_normalizer_0'', ''pptx_contents'', ''ppt'', ''media'', ''a.wav'']]"
  let ?ta = "[''tmp'', ''pptx_normalizer_0'', ''extracted_audio.wav'']"
  let ?fs0 = "snd (temp_directory_enter demo_env demo_skip_fs)"
  let ?fs1 = "snd (extract_pptx demo_env [''in'', ''t.pptx''] ?td ?fs0)"
  let ?fs2 = "snd (normalize_audio_files demo_env ?au (Fin (- 16)) False (Fin (1 / 2)) ?fs1)"
  let ?fs3 = "snd (reconstruct_pptx demo_env ?ep [''out'', ''t.pptx''] ?fs2)"
  let ?fs4 = "snd (temp_directory_exit ?td ?fs3)"
  let ?v1 = "snd (extract_audio_from_video demo_env [''in'', ''x.mp4''] ?ta ?fs0)"
  let ?v2 = "snd (normalize_audio_file demo_env ?ta (Fin (- 16)) False (Fin (1 / 2)) ?v1)"
  have skip: "fst (normalize_audio_files demo_env ?au (Fin (- 16)) False (Fin (1 / 2)) ?fs1)
                = Inr []"
    by code_simp
  have h1: "validate_pptx_file demo_env [''in'', ''t.pptx''] demo_skip_fs = (True, None) \<and>
    overwrite_check [''out'', ''t.pptx''] False [] demo_skip_fs = (Inr True, []) \<and>
    temp_directory_enter demo_env demo_skip_fs = (Inr ?td, ?fs0) \<and>
    extract_pptx demo_env [''in'', ''t.pptx''] ?td ?fs0 = (Inr (?ep, ?au), ?fs1) \<and>
    ?au \<noteq> [] \<and>
    normalize_audio_files demo_env ?au (Fin (- 16)) False (Fin (1 / 2)) ?fs1 = (Inr [], ?fs2) \<and>
    reconstruct_pptx demo_env ?ep [''out'', ''t.pptx''] ?fs2 = (Inr (), ?fs3) \<and>
    temp_directory_exit ?td ?fs3 = (Inr (), ?fs4)"
    by code_simp
  have h2: "validate_video_file demo_env [''in'', ''x.mp4''] demo_skip_fs = (True, None) \<and>
      overwrite_check [''out'', ''x.mp4''] False [] demo_skip_fs = (Inr True, []) \<and>
      temp_directory_enter demo_env demo_skip_fs = (Inr ?td, ?fs0) \<and>
      extract_audio_from_video demo_env [''in'', ''x.mp4''] (?td @ [''extracted_audio.wav'']) ?fs0
        = (Inr (), ?v1) \<and>
      normalize_audio_file demo_env (?td @ [''extracted_audio.wav'']) (Fin (- 16)) False
        (Fin (1 / 2)) ?v1 = (Inr None, ?v2)"
    by code_simp
  note t = skip_exit_status_by_tool [where env = demo_env and target_lufs = "Fin (- 16)"
      and denoise = False and denoise_strength = "Fin (1 / 2)" and force = False
      and stdin = "[]" and stdin' = "[]" and fs = demo_skip_fs and temp_dir = ?td
      and ?fs0.0 = ?fs0 and msg = None]
  from t [where input_path = "[''in'', ''t.pptx'']" and output_path = "[''out'', ''t.pptx'']"
      and extract_path = ?ep and audio_files = ?au and stats = "[]" and ?fs1.0 = ?fs1
      and ?fs2.0 = ?fs2 and ?fs3.0 = ?fs3 and ?fs4.0 = ?fs4, THEN conjunct1, rule_format, OF h1]
  have p: "fst (process_single_pptx demo_env [''in'', ''t.pptx''] [''out'', ''t.pptx'']
                  (Fin (- 16)) False False (Fin (1 / 2)) [] demo_skip_fs) = Inr 0"
    by simp
  from t [where input_path = "[''in'', ''x.mp4'']" and output_path = "[''out'', ''x.mp4'']"
      and ?fs1.0 = ?v1 and ?fs2.0 = ?v2, THEN conjunct2, rule_format, OF h2]
  have v: "fst (process_single_video demo_env [''in'', ''x.mp4''] [''out'', ''x.mp4'']
                  (Fin (- 16)) False False (Fin (1 / 2)) [] demo_skip_fs) = Inr 1"
    by simp
  from skip p v show ?thesis by blast
qed

section \<open>A presentation without audio\<close>

subsection \<open>Work below the temporary directory\<close>


















subsection \<open>The copy\<close>



end
